theory Spec2Isabelle
  imports Complex_Main
begin

section \<open>Python values shared by the routers\<close>

text \<open>
  An \<open>HTTPException(status_code, detail)\<close> raised by a handler is the left summand of the
  handler's result. Other Python exceptions (of class \<open>Exception\<close>) are values of \<open>exn\<close>.
\<close>

datatype http_error = HTTPException nat string

datatype exn = RuntimeError string | ValueError string | TypeError string | OtherError string

text \<open>
  A Python float is an IEEE double; a finite one is given by the rational number it
  denotes. \<open>int(x)\<close> truncates towards zero and \<open>round(x)\<close> rounds to the nearest integer,
  a tie going to the even neighbour.
\<close>

definition py_int :: "rat \<Rightarrow> int" where
  "py_int x = (if 0 \<le> x then \<lfloor>x\<rfloor> else \<lceil>x\<rceil>)"

definition py_round :: "rat \<Rightarrow> int" where
  "py_round x =
     (let f = \<lfloor>x\<rfloor>; d = x - of_int f
      in if d < 1 / 2 then f
         else if 1 / 2 < d then f + 1
         else if even f then f else f + 1)"

text \<open>
  The product of two doubles is the double nearest to the exact product, a tie going to
  the even mantissa. A double has 53 bits of mantissa; below \<open>2 ^ -1022\<close> the spacing stays
  that of the smallest normal numbers, and a result of magnitude \<open>2 ^ 1024\<close> or more is an
  infinity, written \<open>None\<close>. \<open>int\<close> and \<open>round\<close> of an infinity raise \<open>OverflowError\<close>.
\<close>

fun bit_length :: "nat \<Rightarrow> nat" where
  "bit_length n = (if n = 0 then 0 else Suc (bit_length (n div 2)))"

declare bit_length.simps [simp del]

definition pow2 :: "int \<Rightarrow> rat" where
  "pow2 e = (if 0 \<le> e then 2 ^ nat e else 1 / 2 ^ nat (- e))"

text \<open>For \<open>x \<noteq> 0\<close>, the exponent \<open>e\<close> with \<open>2 ^ e \<le> |x| < 2 ^ (e + 1)\<close>.\<close>

definition exponent_of :: "rat \<Rightarrow> int" where
  "exponent_of x =
     (let a = \<bar>x\<bar>;
          e0 = int (bit_length (nat (fst (quotient_of a)))) - int (bit_length (nat (snd (quotient_of a))))
      in if pow2 e0 \<le> a then e0 else e0 - 1)"

definition round_to_double :: "rat \<Rightarrow> rat option" where
  "round_to_double x =
     (if x = 0 then Some 0
      else let e = max (exponent_of x) (- 1022);
               ulp = pow2 (e - 52);
               y = of_int (py_round (x / ulp)) * ulp
           in if pow2 1024 \<le> \<bar>y\<bar> then None else Some y)"

definition float_mul :: "rat \<Rightarrow> rat \<Rightarrow> rat option" where
  "float_mul x y = round_to_double (x * y)"

text \<open>
  A Python \<open>str\<close> of code points below 256 is a \<open>string\<close>, one character for each code
  point. \<open>str.strip()\<close> removes the characters Python counts as white space: tab, line
  feed, vertical tab, form feed, carriage return, the separators 28 to 31, the space, the
  next-line character 133 and the no-break space 160. \<open>str.lower()\<close> maps \<open>A\<close> to \<open>Z\<close> and
  the capital letters 192 to 222 (but not the multiplication sign 215) to the letter 32
  places further.
\<close>

definition is_space :: "char \<Rightarrow> bool" where
  "is_space c =
     (let n = of_char c :: nat
      in (9 \<le> n \<and> n \<le> 13) \<or> (28 \<le> n \<and> n \<le> 32) \<or> n = 133 \<or> n = 160)"

definition strip :: "string \<Rightarrow> string" where
  "strip s = rev (dropWhile is_space (rev (dropWhile is_space s)))"

definition lower_char :: "char \<Rightarrow> char" where
  "lower_char c =
     (let n = of_char c :: nat
      in if (65 \<le> n \<and> n \<le> 90) \<or> (192 \<le> n \<and> n \<le> 222 \<and> n \<noteq> 215) then char_of (n + 32)
         else c)"

definition lower :: "string \<Rightarrow> string" where
  "lower s = map lower_char s"

text \<open>
  \<open>bson.ObjectId(s)\<close> accepts a string of 24 hexadecimal digits and raises on any other
  string. A document's \<open>_id\<close> is such an object identifier (kept as its lower-case
  hexadecimal text), a plain string, or \<open>None\<close> (the null identifier); \<open>str\<close> of the
  latter is the text \<open>None\<close>.
\<close>

definition is_hex_digit :: "char \<Rightarrow> bool" where
  "is_hex_digit c =
     (let n = of_char c :: nat
      in (48 \<le> n \<and> n \<le> 57) \<or> (65 \<le> n \<and> n \<le> 70) \<or> (97 \<le> n \<and> n \<le> 102))"

definition objectid_is_valid :: "string \<Rightarrow> bool" where
  "objectid_is_valid s = (length s = 24 \<and> list_all is_hex_digit s)"

datatype doc_id = ObjectId string | StrId string | NullId

text \<open>
  The lookup idiom of the routers:
  \<^verbatim>\<open>
  try:    doc = await coll.find_one({"_id": ObjectId(key)})
  except Exception:
          doc = await coll.find_one({"_id": key})
  \<close>
  The second query runs only when \<open>ObjectId(key)\<close> raises.
\<close>

definition id_of_key :: "string \<Rightarrow> doc_id" where
  "id_of_key key = (if objectid_is_valid key then ObjectId (lower key) else StrId key)"

definition find_by_id :: "(doc_id \<times> 'a) list \<Rightarrow> string \<Rightarrow> 'a option" where
  "find_by_id coll key = map_of coll (id_of_key key)"

definition str_of_id :: "doc_id \<Rightarrow> string" where
  "str_of_id i = (case i of ObjectId h \<Rightarrow> h | StrId s \<Rightarrow> s | NullId \<Rightarrow> ''None'')"

text \<open>
  \<open>insert_one\<close> appends the document under its identifier; the database refuses a second
  document with an identifier already in the collection (a duplicate key error), the null
  identifier included.
\<close>

definition insert_one :: "(doc_id \<times> 'a) list \<Rightarrow> doc_id \<Rightarrow> 'a \<Rightarrow> exn + (doc_id \<times> 'a) list" where
  "insert_one coll new_id doc =
     (if new_id \<in> set (map fst coll) then Inl (OtherError ''DuplicateKeyError'')
      else Inr (coll @ [(new_id, doc)]))"

text \<open>\<open>update_one\<close> changes the first document that matches the filter, and only that one.\<close>

fun update_one :: "('a \<Rightarrow> bool) \<Rightarrow> ('a \<Rightarrow> 'a) \<Rightarrow> 'a list \<Rightarrow> 'a list" where
  "update_one p f [] = []"
| "update_one p f (x # xs) = (if p x then f x # xs else x # update_one p f xs)"

section \<open>Passwords: \<open>app/core/security.py\<close> and \<open>app/crud/users.py\<close>\<close>

text \<open>
  A Python \<open>str\<close> holding a password is a list of code points, since the byte limit of
  \<open>create_user\<close> counts the bytes of the UTF-8 encoding.
\<close>

type_synonym ustr = "nat list"
type_synonym bytes = "nat list"

definition utf8_char :: "nat \<Rightarrow> bytes" where
  "utf8_char c =
     (if c < 128 then [c]
      else if c < 2048 then [192 + c div 64, 128 + c mod 64]
      else if c < 65536 then [224 + c div 4096, 128 + (c div 64) mod 64, 128 + c mod 64]
      else [240 + c div 262144, 128 + (c div 4096) mod 64, 128 + (c div 64) mod 64,
            128 + c mod 64])"

definition encode_utf8 :: "ustr \<Rightarrow> bytes" where
  "encode_utf8 s = concat (map utf8_char s)"

definition is_cont :: "nat \<Rightarrow> bool" where
  "is_cont b = (128 \<le> b \<and> b < 192)"

text \<open>
  \<open>bytes.decode("utf-8", errors="ignore")\<close>: a complete sequence gives its code point, a
  byte that starts no complete sequence is dropped.
\<close>

fun decode_utf8_ignore :: "bytes \<Rightarrow> ustr" where
  "decode_utf8_ignore [] = []"
| "decode_utf8_ignore [b] = (if b < 128 then [b] else [])"
| "decode_utf8_ignore [b, c] =
     (if b < 128 then b # decode_utf8_ignore [c]
      else if 192 \<le> b \<and> b < 224 \<and> is_cont c then [(b - 192) * 64 + (c - 128)]
      else decode_utf8_ignore [c])"
| "decode_utf8_ignore [b, c, d] =
     (if b < 128 then b # decode_utf8_ignore [c, d]
      else if 192 \<le> b \<and> b < 224 \<and> is_cont c
        then ((b - 192) * 64 + (c - 128)) # decode_utf8_ignore [d]
      else if 224 \<le> b \<and> b < 240 \<and> is_cont c \<and> is_cont d
        then [(b - 224) * 4096 + (c - 128) * 64 + (d - 128)]
      else decode_utf8_ignore [c, d])"
| "decode_utf8_ignore (b # c # d # e # bs) =
     (if b < 128 then b # decode_utf8_ignore (c # d # e # bs)
      else if 192 \<le> b \<and> b < 224 \<and> is_cont c
        then ((b - 192) * 64 + (c - 128)) # decode_utf8_ignore (d # e # bs)
      else if 224 \<le> b \<and> b < 240 \<and> is_cont c \<and> is_cont d
        then ((b - 224) * 4096 + (c - 128) * 64 + (d - 128)) # decode_utf8_ignore (e # bs)
      else if 240 \<le> b \<and> b < 248 \<and> is_cont c \<and> is_cont d \<and> is_cont e
        then ((b - 240) * 262144 + (c - 128) * 4096 + (d - 128) * 64 + (e - 128))
               # decode_utf8_ignore bs
      else decode_utf8_ignore (c # d # e # bs))"

text \<open>
  The password library (\<open>passlib\<close>'s \<open>CryptContext\<close> with the argon2 scheme) is not part of
  the repository. Its hash is taken as ideal: the stored text is determined by the salt and
  the bytes of the secret, and two different secrets never give the same text. A stored
  text that is no hash of the scheme is \<open>Unidentified\<close>; the library raises on it.
\<close>

datatype hash_str = Argon2 nat bytes | Unidentified string

definition ctx_hash :: "nat \<Rightarrow> ustr \<Rightarrow> hash_str" where
  "ctx_hash salt secret = Argon2 salt (encode_utf8 secret)"

fun ctx_verify :: "ustr \<Rightarrow> hash_str \<Rightarrow> exn + bool" where
  "ctx_verify secret (Argon2 salt digest) = Inr (encode_utf8 secret = digest)"
| "ctx_verify secret (Unidentified s) = Inl (ValueError ''hash could not be identified'')"

text \<open>\<open>get_password_hash\<close> and its alias \<open>hash_password\<close>; the salt is the library's choice.\<close>

definition get_password_hash :: "nat \<Rightarrow> ustr \<Rightarrow> hash_str" where
  "get_password_hash salt password = ctx_hash salt password"

definition hash_password :: "nat \<Rightarrow> ustr \<Rightarrow> hash_str" where
  "hash_password salt password = get_password_hash salt password"

text \<open>
  \<open>verify_password\<close>, over any behaviour \<open>verify\<close> of the library's \<open>pwd_context.verify\<close>
  (a boolean or an exception). \<open>not hashed_password\<close> holds for \<open>None\<close> and for the empty
  string. The result is a sum so that an exception leaving the function would show.
\<close>

fun falsy_hash :: "hash_str option \<Rightarrow> bool" where
  "falsy_hash None = True"
| "falsy_hash (Some (Unidentified s)) = (s = [])"
| "falsy_hash (Some (Argon2 salt digest)) = False"

definition verify_password ::
  "(ustr \<Rightarrow> hash_str \<Rightarrow> exn + bool) \<Rightarrow> ustr \<Rightarrow> hash_str option \<Rightarrow> exn + bool" where
  "verify_password verify plain_password hashed_password =
     (if falsy_hash hashed_password then Inr False
      else case hashed_password of
             None \<Rightarrow> Inr False
           | Some h \<Rightarrow> (case verify plain_password h of
                          Inl exc \<Rightarrow> Inr False
                        | Inr b \<Rightarrow> Inr b))"

text \<open>
  The password branch of \<open>create_user\<close>: the text that is hashed and stored under
  \<open>hashed_password\<close>.
  \<^verbatim>\<open>
  pw_bytes = password.encode("utf-8")
  if len(pw_bytes) > 72:
      pw_bytes = pw_bytes[:72]
      password = pw_bytes.decode("utf-8", errors="ignore")
  user_data["hashed_password"] = pwd_ctx.hash(password)
  \<close>
\<close>

definition create_user_password :: "ustr \<Rightarrow> ustr" where
  "create_user_password password =
     (let pw_bytes = encode_utf8 password
      in if 72 < length pw_bytes then decode_utf8_ignore (take 72 pw_bytes) else password)"

record user_data =
  ud_email :: "string option"
  ud_password :: "ustr option"

record user_in_db =
  uid_email :: "string option"
  uid_hashed_password :: "hash_str option"
  uid_is_active :: bool
  uid_roles :: "string list"

definition normalize_email :: "string \<Rightarrow> string" where
  "normalize_email email = lower (strip email)"

definition create_user :: "nat \<Rightarrow> user_in_db list \<Rightarrow> user_data \<Rightarrow> user_in_db list \<times> user_in_db" where
  "create_user salt users ud =
     (let doc = \<lparr> uid_email = map_option normalize_email (ud_email ud),
                  uid_hashed_password =
                    map_option (\<lambda>p. ctx_hash salt (create_user_password p)) (ud_password ud),
                  uid_is_active = True,
                  uid_roles = [] \<rparr>
      in (users @ [doc], doc))"

section \<open>Access tokens: \<open>create_access_token\<close>, \<open>decode_access_token\<close>, \<open>require_admin\<close>\<close>

text \<open>
  Times are whole seconds since the epoch. The claims of a token that the code reads are
  \<open>sub\<close>, \<open>iat\<close> and \<open>exp\<close>. The JWT library (\<open>jose\<close>) is not part of the repository: a
  token is the signed claims together with the key that signed them, or text that is no
  token at all; decoding checks the key and, when \<open>exp\<close> is present, raises once \<open>exp\<close>
  is earlier than the library's current time. The time at which a token is made and the
  time at which it is decoded are both inputs.
\<close>

record claims =
  sub :: "string option"
  iat :: "int option"
  exp :: "int option"

datatype token = Signed claims string | Garbage string

datatype subject = SubjectStr string | SubjectDict "string option"

definition create_access_token :: "string \<Rightarrow> int \<Rightarrow> subject \<Rightarrow> int \<Rightarrow> token" where
  "create_access_token secret_key now subj expires_delta =
     (let expire = now + expires_delta;
          s = (case subj of SubjectStr x \<Rightarrow> Some x | SubjectDict d \<Rightarrow> d)
      in Signed \<lparr> sub = s, iat = Some now, exp = Some expire \<rparr> secret_key)"

definition decode_access_token :: "string \<Rightarrow> int \<Rightarrow> token \<Rightarrow> exn + claims" where
  "decode_access_token secret_key now tok =
     (case tok of
        Garbage s \<Rightarrow> Inl (OtherError ''JWTError'')
      | Signed c key \<Rightarrow>
          if key \<noteq> secret_key then Inl (OtherError ''JWTError'')
          else (case exp c of
                  None \<Rightarrow> Inr c
                | Some e \<Rightarrow> if e < now then Inl (OtherError ''ExpiredSignatureError'')
                            else Inr c))"

text \<open>
  The value stored under \<open>password_changed_at\<close>, by its Python type, and
  \<open>_ts_from_value\<close>. A \<open>datetime\<close> is given by its timestamp; a value of another type
  carries what \<open>int(val)\<close> returns, or \<open>None\<close> when \<open>int(val)\<close> raises.
\<close>

datatype ts_value = TsNone | TsInt int | TsFloat rat | TsDatetime rat | TsOther "int option"

fun ts_from_value :: "ts_value \<Rightarrow> int" where
  "ts_from_value TsNone = 0"
| "ts_from_value (TsInt i) = i"
| "ts_from_value (TsFloat x) = py_int x"
| "ts_from_value (TsDatetime x) = py_int x"
| "ts_from_value (TsOther (Some i)) = i"
| "ts_from_value (TsOther None) = 0"

record user_doc =
  u_oid :: doc_id
  u_id :: "string option"
  u_email :: "string option"
  u_hashed_password :: "hash_str option"
  u_password_changed_at :: ts_value
  u_roles :: "string list"
  u_role :: "string option"

text \<open>
  \<open>_fetch_user_by_id_or_email\<close>: by object identifier when the subject parses as one, and
  only otherwise by the \<open>id\<close> field and then by the \<open>email\<close> field.
\<close>

definition fetch_user_by_id_or_email :: "user_doc list \<Rightarrow> string \<Rightarrow> user_doc option" where
  "fetch_user_by_id_or_email users user_id =
     (if objectid_is_valid user_id
      then find (\<lambda>u. u_oid u = ObjectId (lower user_id)) users
      else (case find (\<lambda>u. u_id u = Some user_id) users of
              Some u \<Rightarrow> Some u
            | None \<Rightarrow> find (\<lambda>u. u_email u = Some user_id) users))"

definition effective_roles :: "user_doc \<Rightarrow> string list" where
  "effective_roles user =
     (case u_role user of
        None \<Rightarrow> u_roles user
      | Some r \<Rightarrow> if r = [] then u_roles user else remdups (u_roles user @ [r]))"

definition require_admin :: "string \<Rightarrow> int \<Rightarrow> user_doc list \<Rightarrow> token \<Rightarrow> http_error + user_doc" where
  "require_admin secret_key now users tok =
     (case decode_access_token secret_key now tok of
        Inl exc \<Rightarrow> Inl (HTTPException 401 ''Invalid token'')
      | Inr payload \<Rightarrow>
          (case sub payload of
             None \<Rightarrow> Inl (HTTPException 401 ''Invalid token payload'')
           | Some user_id \<Rightarrow>
               if user_id = [] then Inl (HTTPException 401 ''Invalid token payload'')
               else (case fetch_user_by_id_or_email users user_id of
                       None \<Rightarrow> Inl (HTTPException 401 ''User not found'')
                     | Some user \<Rightarrow>
                         let token_iat_int = (case iat payload of None \<Rightarrow> 0 | Some t \<Rightarrow> t);
                             pwd_changed_ts = ts_from_value (u_password_changed_at user);
                             roles = effective_roles user
                         in if token_iat_int < pwd_changed_ts
                            then Inl (HTTPException 401 ''Token revoked due to password change'')
                            else if \<not> (''admin'' \<in> set roles \<or> ''owner'' \<in> set roles)
                            then Inl (HTTPException 403 ''Admin privileges required'')
                            else Inr (user \<lparr> u_hashed_password := None \<rparr>))))"

section \<open>Catalog taxonomy: \<open>app/routers/products.py\<close>\<close>

definition GENDERS :: "string list" where
  "GENDERS = [''men'', ''women'']"

definition ALLOWED_CATEGORIES :: "(string \<times> string list) list" where
  "ALLOWED_CATEGORIES =
     [(''clothing'', map lower [''tshirt'', ''jeans'', ''kurti'', ''saree'', ''jacket'', ''shirt'',
                               ''trouser'', ''shorts'', ''kurta''])]"

text \<open>
  The field validators. A validator returns the normalised value or a \<open>ValueError\<close>.
  \<open>values.get("category")\<close> is the validated category, and is absent when the category
  was not given or did not validate; \<open>if category:\<close> is false for an absent or empty one.
\<close>

definition validate_category :: "string \<Rightarrow> exn + string" where
  "validate_category v =
     (let v_norm = lower (strip v)
      in if v_norm \<notin> set (map fst ALLOWED_CATEGORIES)
         then Inl (ValueError ''category must be one of the allowed categories'')
         else Inr v_norm)"

definition subcategory_allowed :: "string \<Rightarrow> string \<Rightarrow> bool" where
  "subcategory_allowed category v_norm =
     (case map_of ALLOWED_CATEGORIES category of
        None \<Rightarrow> False
      | Some allowed \<Rightarrow> allowed \<noteq> [] \<and> v_norm \<in> set allowed)"

definition validate_subcategory :: "string \<Rightarrow> string option \<Rightarrow> exn + string" where
  "validate_subcategory v values_category =
     (let v_norm = lower (strip v)
      in case values_category of
           None \<Rightarrow> Inr v_norm
         | Some category \<Rightarrow>
             if category = [] then Inr v_norm
             else if \<not> subcategory_allowed category v_norm
             then Inl (ValueError ''subcategory must be one of the allowed subcategories'')
             else Inr v_norm)"

record product =
  p_title :: string
  p_gender :: string
  p_category :: string
  p_subcategory :: string
  p_price :: rat
  p_description :: "string option"
  p_images :: "string list"
  p_available :: bool
  p_created_at :: "int option"

text \<open>
  Validation against \<open>ProductBase\<close> (its fields in their order). The errors of all fields
  are collected; the value is accepted, with the normalised category and subcategory, when
  there is none. \<open>ProductCreate\<close> adds nothing to \<open>ProductBase\<close>; \<open>ProductInDB\<close> adds the
  required string \<open>id\<close>.
\<close>

definition errors_of :: "exn + 'a \<Rightarrow> exn list" where
  "errors_of r = (case r of Inl e \<Rightarrow> [e] | Inr v \<Rightarrow> [])"

definition value_of :: "exn + 'a \<Rightarrow> 'a option" where
  "value_of r = (case r of Inl e \<Rightarrow> None | Inr v \<Rightarrow> Some v)"

definition ProductBase :: "product \<Rightarrow> exn list + product" where
  "ProductBase raw =
     (let e_title = (if 1 \<le> length (p_title raw) then []
                     else [ValueError ''title: at least 1 character'']);
          e_gender = (if p_gender raw \<in> set GENDERS then []
                      else [ValueError ''gender: men or women'']);
          r_category = validate_category (p_category raw);
          r_subcategory = validate_subcategory (p_subcategory raw) (value_of r_category);
          e_price = (if 0 \<le> p_price raw then [] else [ValueError ''price: at least 0'']);
          errors = e_title @ e_gender @ errors_of r_category @ errors_of r_subcategory @ e_price
      in case (r_category, r_subcategory) of
           (Inr c, Inr s) \<Rightarrow>
             if errors = [] then Inr (raw \<lparr> p_category := c, p_subcategory := s \<rparr>)
             else Inl errors
         | _ \<Rightarrow> Inl errors)"

definition ProductCreate :: "product \<Rightarrow> exn list + product" where
  "ProductCreate raw = ProductBase raw"

definition ProductInDB :: "string \<times> product \<Rightarrow> exn list + string \<times> product" where
  "ProductInDB doc =
     (case ProductBase (snd doc) of
        Inl errors \<Rightarrow> Inl errors
      | Inr p \<Rightarrow> Inr (fst doc, p))"

text \<open>
  A route declared with \<open>response_model=ProductInDB\<close> returns what the handler returned
  after validating it against \<open>ProductInDB\<close>; when it does not validate, the answer is
  500.
\<close>

definition response_ProductInDB :: "doc_id \<times> product \<Rightarrow> http_error + string \<times> product" where
  "response_ProductInDB doc =
     (case ProductInDB (str_of_id (fst doc), snd doc) of
        Inl errors \<Rightarrow> Inl (HTTPException 500 ''Internal Server Error'')
      | Inr out \<Rightarrow> Inr out)"

text \<open>
  \<open>create_product\<close>: the handler runs on a validated body; a body that does not validate is
  answered by the framework with a validation error (422) and the handler does not run.
  The collection maps identifiers to documents; \<open>new_id\<close> is the identifier the driver
  gives the inserted document, which has no \<open>_id\<close> of its own.
\<close>

definition create_product ::
  "(doc_id \<times> product) list \<Rightarrow> doc_id \<Rightarrow> int \<Rightarrow> product
     \<Rightarrow> (doc_id \<times> product) list \<times> (http_error + string \<times> product)" where
  "create_product products new_id now raw =
     (case ProductCreate raw of
        Inl errors \<Rightarrow> (products, Inl (HTTPException 422 ''validation error''))
      | Inr payload \<Rightarrow>
          let doc = payload \<lparr> p_created_at := Some now \<rparr>
          in (case insert_one products new_id doc of
                Inl exc \<Rightarrow> (products, Inl (HTTPException 500 ''Internal Server Error''))
              | Inr products' \<Rightarrow>
                  (case map_of products' new_id of
                     None \<Rightarrow> (products', Inl (HTTPException 500 ''Failed to create product''))
                   | Some created \<Rightarrow> (products', response_ProductInDB (new_id, created)))))"

record product_update =
  pu_title :: "string option"
  pu_gender :: "string option"
  pu_category :: "string option"
  pu_subcategory :: "string option"
  pu_price :: "rat option"
  pu_description :: "string option"
  pu_images :: "string list option"
  pu_available :: "bool option"

text \<open>
  Validation of a \<open>ProductUpdate\<close> body: every field is optional, and a validator returns
  \<open>None\<close> unchanged.
\<close>

definition validate_category_update :: "string option \<Rightarrow> exn + string option" where
  "validate_category_update v =
     (case v of
        None \<Rightarrow> Inr None
      | Some x \<Rightarrow> (case validate_category x of Inl e \<Rightarrow> Inl e | Inr c \<Rightarrow> Inr (Some c)))"

definition validate_subcategory_update :: "string option \<Rightarrow> string option \<Rightarrow> exn + string option" where
  "validate_subcategory_update v values_category =
     (case v of
        None \<Rightarrow> Inr None
      | Some x \<Rightarrow> (case validate_subcategory x values_category of
                     Inl e \<Rightarrow> Inl e
                   | Inr s \<Rightarrow> Inr (Some s)))"

definition ProductUpdate :: "product_update \<Rightarrow> exn list + product_update" where
  "ProductUpdate raw =
     (let e_gender = (case pu_gender raw of
                        None \<Rightarrow> []
                      | Some g \<Rightarrow> if g \<in> set GENDERS then []
                                  else [ValueError ''gender: men or women'']);
          r_category = validate_category_update (pu_category raw);
          values_category = (case r_category of Inl e \<Rightarrow> None | Inr c \<Rightarrow> c);
          r_subcategory = validate_subcategory_update (pu_subcategory raw) values_category;
          errors = e_gender @ errors_of r_category @ errors_of r_subcategory
      in case (r_category, r_subcategory) of
           (Inr c, Inr s) \<Rightarrow>
             if errors = [] then Inr (raw \<lparr> pu_category := c, pu_subcategory := s \<rparr>)
             else Inl errors
         | _ \<Rightarrow> Inl errors)"

text \<open>\<open>{"$set": update_doc}\<close> with the fields of the body that are not \<open>None\<close>.\<close>

definition apply_update_doc :: "product_update \<Rightarrow> product \<Rightarrow> product" where
  "apply_update_doc u p =
     \<lparr> p_title = (case pu_title u of None \<Rightarrow> p_title p | Some v \<Rightarrow> v),
       p_gender = (case pu_gender u of None \<Rightarrow> p_gender p | Some v \<Rightarrow> v),
       p_category = (case pu_category u of None \<Rightarrow> p_category p | Some v \<Rightarrow> v),
       p_subcategory = (case pu_subcategory u of None \<Rightarrow> p_subcategory p | Some v \<Rightarrow> v),
       p_price = (case pu_price u of None \<Rightarrow> p_price p | Some v \<Rightarrow> v),
       p_description = (case pu_description u of None \<Rightarrow> p_description p | Some v \<Rightarrow> Some v),
       p_images = (case pu_images u of None \<Rightarrow> p_images p | Some v \<Rightarrow> v),
       p_available = (case pu_available u of None \<Rightarrow> p_available p | Some v \<Rightarrow> v),
       p_created_at = p_created_at p \<rparr>"

definition update_doc_empty :: "product_update \<Rightarrow> bool" where
  "update_doc_empty u =
     (pu_title u = None \<and> pu_gender u = None \<and> pu_category u = None \<and> pu_subcategory u = None
      \<and> pu_price u = None \<and> pu_description u = None \<and> pu_images u = None
      \<and> pu_available u = None)"

text \<open>
  \<open>update_product\<close>. When no document has the identifier, \<open>find_one\<close> returns \<open>None\<close> and
  \<open>doc["_id"]\<close> raises, which the framework answers with 500. The document read back
  after the write is the handler's return value, and the route is declared with
  \<open>response_model=ProductInDB\<close>.
\<close>

definition update_product ::
  "(doc_id \<times> product) list \<Rightarrow> string \<Rightarrow> product_update
     \<Rightarrow> (doc_id \<times> product) list \<times> (http_error + string \<times> product)" where
  "update_product products product_id raw =
     (case ProductUpdate raw of
        Inl errors \<Rightarrow> (products, Inl (HTTPException 422 ''validation error''))
      | Inr payload \<Rightarrow>
          if \<not> objectid_is_valid product_id
          then (products, Inl (HTTPException 400 ''Invalid product id''))
          else if (case (pu_category payload, pu_subcategory payload) of
                     (Some cat, Some s) \<Rightarrow> \<not> subcategory_allowed cat s
                   | _ \<Rightarrow> False)
          then (products, Inl (HTTPException 400 ''subcategory must be one of the allowed subcategories''))
          else if update_doc_empty payload
          then (products, Inl (HTTPException 400 ''No fields to update''))
          else let key = id_of_key product_id;
                   products' = update_one (\<lambda>kv. fst kv = key)
                                 (\<lambda>kv. (fst kv, apply_update_doc payload (snd kv))) products
               in (case map_of products' key of
                     None \<Rightarrow> (products', Inl (HTTPException 500 ''Internal Server Error''))
                   | Some doc \<Rightarrow> (products', response_ProductInDB (key, doc))))"

section \<open>Orders and payments: \<open>app/models/order.py\<close> and \<open>app/routers/payment_router.py\<close>\<close>

text \<open>
  A stored order is a dictionary; a field that is \<open>None\<close> here is a key the document does
  not have (or has with the value \<open>None\<close>), so that \<open>order.get(key)\<close> is the field.
\<close>

record order_item =
  oi_product_id :: "string option"
  oi_name :: "string option"
  oi_price :: "rat option"
  oi_quantity :: "int option"
  oi_size :: "string option"
  oi_image :: "string option"

record shipping_address =
  sa_fullName :: string
  sa_phone :: string
  sa_pincode :: string
  sa_addressLine1 :: string
  sa_addressLine2 :: "string option"
  sa_city :: string
  sa_state :: string
  sa_country :: string
  sa_landmark :: "string option"

record order_create =
  oc_email :: string
  oc_items :: "order_item list"
  oc_amount :: rat
  oc_shipping_address :: shipping_address

record order_doc =
  o_email :: "string option"
  o_customer_email :: "string option"
  o_items :: "order_item list"
  o_amount :: "rat option"
  o_shipping_address :: "shipping_address option"
  o_razorpay_order_id :: "string option"
  o_razorpay_payment_id :: "string option"
  o_status :: "string option"
  o_created_at :: "int option"
  o_updated_at :: "int option"

record payment_record =
  pr_order_id :: string
  pr_payment_id :: string
  pr_signature :: string
  pr_meta :: "string option"
  pr_created_at :: int

record return_doc =
  rd_order_id :: string
  rd_product_id :: string
  rd_customer_email :: "string option"
  rd_reason :: string
  rd_photos :: "string list"
  rd_status :: "string option"
  rd_requested_at :: "int option"
  rd_admin_action_at :: "int option"
  rd_refund_amount :: "int option"
  rd_razorpay_payment_id :: "string option"
  rd_razorpay_refund_id :: "string option"
  rd_admin_note :: "string option"

record database =
  orders :: "(doc_id \<times> order_doc) list"
  payments :: "payment_record list"
  return_requests :: "(doc_id \<times> return_doc) list"

text \<open>
  The payment gateway's SDK is not part of the repository; a client is given by what its
  three calls return. \<open>verify_payment_signature\<close> returns, raises
  \<open>SignatureVerificationError\<close>, or raises something else.
\<close>

record order_data =
  od_amount :: int
  od_currency :: string
  od_payment_capture :: int

record rz_order =
  rz_id :: "string option"
  rz_amount :: int

datatype verify_outcome = SignatureOk | SignatureVerificationError | VerifyError string

datatype refund_resp = RefundDict "string option" | RefundOther

record razorpay_client =
  order_create_call :: "order_data \<Rightarrow> exn + rz_order"
  verify_payment_signature :: "string \<Rightarrow> string \<Rightarrow> string \<Rightarrow> verify_outcome"
  payment_refund :: "string \<Rightarrow> int \<Rightarrow> exn + refund_resp"

text \<open>
  The \<open>order_data\<close> sent to the gateway: \<open>int(round(amount_rupees * 100))\<close>, rupees to
  paise, the product taken in doubles. A product that overflows makes \<open>round\<close> raise.
\<close>

definition order_data_of :: "rat \<Rightarrow> exn + order_data" where
  "order_data_of amount_rupees =
     (case float_mul amount_rupees 100 of
        None \<Rightarrow> Inl (OtherError ''OverflowError'')
      | Some paise \<Rightarrow>
          Inr \<lparr> od_amount = py_round paise, od_currency = ''INR'', od_payment_capture = 1 \<rparr>)"

text \<open>
  \<open>OrderDB(...).dict(by_alias=True)\<close> with the two time stamps set to \<open>now\<close>. The model's
  field \<open>id\<close> (alias \<open>_id\<close>) is not given and defaults to \<open>None\<close>, so the dictionary
  carries the key \<open>_id\<close> with the value \<open>None\<close>: the document is the pair of that
  identifier and the other fields.
\<close>

definition OrderDB :: "order_create \<Rightarrow> string \<Rightarrow> int \<Rightarrow> doc_id \<times> order_doc" where
  "OrderDB payload rz_order_id now =
     (NullId,
      \<lparr> o_email = Some (oc_email payload),
        o_customer_email = None,
        o_items = oc_items payload,
        o_amount = Some (oc_amount payload),
        o_shipping_address = Some (oc_shipping_address payload),
        o_razorpay_order_id = Some rz_order_id,
        o_razorpay_payment_id = None,
        o_status = Some ''PENDING_PAYMENT'',
        o_created_at = Some now,
        o_updated_at = Some now \<rparr>)"

record create_order_response =
  cr_order_id :: "string option"
  cr_amount :: rat
  cr_currency :: string
  cr_db_order_id :: "string option"
  cr_raw :: rz_order

text \<open>
  \<open>create_order\<close>. The document is inserted under the \<open>_id\<close> it carries. A failure while
  saving (a missing \<open>id\<close> in the gateway's answer, or the insert refused) is logged and
  the answer is still returned, with no \<open>db_order_id\<close>; after an insert, \<open>db_order_id\<close> is
  \<open>str(result.inserted_id)\<close>.
\<close>

definition save_order ::
  "database option \<Rightarrow> int \<Rightarrow> order_create \<Rightarrow> rz_order \<Rightarrow> database option \<times> string option" where
  "save_order db now payload rz =
     (case db of
        None \<Rightarrow> (None, None)
      | Some d \<Rightarrow>
          (case rz_id rz of
             None \<Rightarrow> (Some d, None)
           | Some rid \<Rightarrow>
               let order_doc = OrderDB payload rid now
               in (case insert_one (orders d) (fst order_doc) (snd order_doc) of
                     Inl exc \<Rightarrow> (Some d, None)
                   | Inr os \<Rightarrow> (Some (d \<lparr> orders := os \<rparr>), Some (str_of_id (fst order_doc))))))"

definition create_order ::
  "razorpay_client option \<Rightarrow> database option \<Rightarrow> int \<Rightarrow> order_create
     \<Rightarrow> database option \<times> (http_error + create_order_response)" where
  "create_order razorpay_client db now payload =
     (case razorpay_client of
        None \<Rightarrow> (db, Inl (HTTPException 500 ''Razorpay client not initialized on server.''))
      | Some client \<Rightarrow>
          let amount_rupees = oc_amount payload
          in if amount_rupees \<le> 0
             then (db, Inl (HTTPException 400 ''Amount must be positive (rupees).''))
             else (case order_data_of amount_rupees of
                     Inl exc \<Rightarrow> (db, Inl (HTTPException 500 ''Internal Server Error''))
                   | Inr order_data \<Rightarrow>
                       (case order_create_call client order_data of
                          Inl exc \<Rightarrow> (db, Inl (HTTPException 500 ''Failed to create order''))
                        | Inr rz \<Rightarrow>
                            let saved = save_order db now payload rz
                            in (fst saved,
                                Inr \<lparr> cr_order_id = rz_id rz, cr_amount = amount_rupees,
                                      cr_currency = ''INR'', cr_db_order_id = snd saved,
                                      cr_raw = rz \<rparr>))))"

record verify_payload =
  vp_razorpay_order_id :: string
  vp_razorpay_payment_id :: string
  vp_razorpay_signature :: string
  vp_order_meta :: "string option"

definition has_razorpay_order_id :: "string \<Rightarrow> doc_id \<times> order_doc \<Rightarrow> bool" where
  "has_razorpay_order_id rid kv = (o_razorpay_order_id (snd kv) = Some rid)"

definition mark_failed :: "int \<Rightarrow> doc_id \<times> order_doc \<Rightarrow> doc_id \<times> order_doc" where
  "mark_failed now kv = (fst kv, (snd kv) \<lparr> o_status := Some ''FAILED'', o_updated_at := Some now \<rparr>)"

definition mark_paid :: "string \<Rightarrow> int \<Rightarrow> doc_id \<times> order_doc \<Rightarrow> doc_id \<times> order_doc" where
  "mark_paid payment_id now kv =
     (fst kv, (snd kv) \<lparr> o_razorpay_payment_id := Some payment_id, o_status := Some ''PAID'',
                          o_updated_at := Some now \<rparr>)"

definition verify_payment ::
  "razorpay_client option \<Rightarrow> database option \<Rightarrow> int \<Rightarrow> verify_payload
     \<Rightarrow> database option \<times> (http_error + string \<times> string)" where
  "verify_payment razorpay_client db now payload =
     (case razorpay_client of
        None \<Rightarrow> (db, Inl (HTTPException 500 ''Razorpay client not initialized on server.''))
      | Some client \<Rightarrow>
          (case verify_payment_signature client (vp_razorpay_order_id payload)
                  (vp_razorpay_payment_id payload) (vp_razorpay_signature payload) of
             SignatureVerificationError \<Rightarrow>
               (map_option
                  (\<lambda>d. d \<lparr> orders := update_one (has_razorpay_order_id (vp_razorpay_order_id payload))
                                        (mark_failed now) (orders d) \<rparr>) db,
                Inl (HTTPException 400 ''Invalid payment signature''))
           | VerifyError msg \<Rightarrow> (db, Inl (HTTPException 500 ''Error verifying signature''))
           | SignatureOk \<Rightarrow>
               (map_option
                  (\<lambda>d. d \<lparr> orders := update_one (has_razorpay_order_id (vp_razorpay_order_id payload))
                                        (mark_paid (vp_razorpay_payment_id payload) now) (orders d),
                            payments := payments d @
                              [\<lparr> pr_order_id = vp_razorpay_order_id payload,
                                 pr_payment_id = vp_razorpay_payment_id payload,
                                 pr_signature = vp_razorpay_signature payload,
                                 pr_meta = vp_order_meta payload,
                                 pr_created_at = now \<rparr>] \<rparr>) db,
                Inr (''success'', ''Payment verified successfully!''))))"

section \<open>Returns and refunds: \<open>app/routers/return_requests.py\<close>\<close>

record return_create =
  rc_order_id :: string
  rc_product_id :: string
  rc_reason :: string
  rc_photos :: "string list option"

record current_user =
  cu_email :: "string option"

text \<open>\<open>str(item.get("product_id"))\<close>: the string itself, and \<open>'None'\<close> for a missing identifier.\<close>

definition py_str :: "string option \<Rightarrow> string" where
  "py_str v = (case v of None \<Rightarrow> ''None'' | Some x \<Rightarrow> x)"

text \<open>
  The loop over the order's items:
  \<^verbatim>\<open>
  refund_amount_paise = 0
  for item in order.get("items", []):
      if str(item.get("product_id")) == str(payload.product_id):
          refund_amount_paise = int(float(item.get("price", 0)) * 100)
          break
  \<close>
  The product is taken in doubles; when it overflows, \<open>int\<close> raises.
\<close>

fun refund_amount_paise :: "order_item list \<Rightarrow> string \<Rightarrow> exn + int" where
  "refund_amount_paise [] product_id = Inr 0"
| "refund_amount_paise (item # rest) product_id =
     (if py_str (oi_product_id item) = product_id
      then (case float_mul (case oi_price item of None \<Rightarrow> 0 | Some price \<Rightarrow> price) 100 of
              None \<Rightarrow> Inl (OtherError ''OverflowError'')
            | Some paise \<Rightarrow> Inr (py_int paise))
      else refund_amount_paise rest product_id)"

text \<open>
  \<open>create_return_request\<close>. The body is a \<open>ReturnCreate\<close> (a reason of at least three
  characters, else the framework's validation error, which comes after the database
  dependency has been resolved). \<open>new_id\<close> is the identifier the
  driver gives the inserted request. The answer is built by \<open>ReturnDoc(**doc)\<close>, whose
  \<open>customer_email\<close> is required; a requester's address, when present, is taken to be a
  well-formed address.
\<close>

definition create_return_request ::
  "database option \<Rightarrow> current_user \<Rightarrow> doc_id \<Rightarrow> int \<Rightarrow> return_create
     \<Rightarrow> database option \<times> (http_error + string \<times> return_doc)" where
  "create_return_request db user new_id now payload =
     (case db of
        None \<Rightarrow> (db, Inl (HTTPException 500 ''Database not available''))
      | Some d \<Rightarrow>
          if length (rc_reason payload) < 3
          then (db, Inl (HTTPException 422 ''validation error''))
          else
          (case find_by_id (orders d) (rc_order_id payload) of
             None \<Rightarrow> (db, Inl (HTTPException 404 ''Order not found''))
           | Some order \<Rightarrow>
               if o_customer_email order \<noteq> cu_email user
               then (db, Inl (HTTPException 403 ''Order does not belong to user''))
               else if o_status order \<noteq> Some ''delivered''
               then (db, Inl (HTTPException 400 ''Order not delivered yet; cannot return''))
               else case refund_amount_paise (o_items order) (rc_product_id payload) of
                      Inl exc \<Rightarrow> (db, Inl (HTTPException 500 ''Internal Server Error''))
                    | Inr amount \<Rightarrow>
                       if amount = 0
                       then (db, Inl (HTTPException 400 ''Product not found in order or price is zero''))
                       else let doc = \<lparr> rd_order_id = rc_order_id payload,
                                         rd_product_id = rc_product_id payload,
                                         rd_customer_email = cu_email user,
                                         rd_reason = rc_reason payload,
                                         rd_photos = (case rc_photos payload of
                                                        None \<Rightarrow> [] | Some ps \<Rightarrow> ps),
                                         rd_status = Some ''pending'',
                                         rd_requested_at = Some now,
                                         rd_admin_action_at = None,
                                         rd_refund_amount = Some amount,
                                         rd_razorpay_payment_id = o_razorpay_payment_id order,
                                         rd_razorpay_refund_id = None,
                                         rd_admin_note = None \<rparr>
                            in (case insert_one (return_requests d) new_id doc of
                                  Inl exc \<Rightarrow> (db, Inl (HTTPException 500 ''Internal Server Error''))
                                | Inr rs \<Rightarrow>
                                    if cu_email user = None
                                    then (Some (d \<lparr> return_requests := rs \<rparr>),
                                          Inl (HTTPException 500 ''Internal Server Error''))
                                    else (Some (d \<lparr> return_requests := rs \<rparr>),
                                          Inr (str_of_id new_id, doc)))))"

text \<open>
  \<open>call_razorpay_refund\<close>: no configured client, or an error of the SDK's call, is a
  \<open>RuntimeError\<close>.
\<close>

definition call_razorpay_refund :: "razorpay_client option \<Rightarrow> string \<Rightarrow> int \<Rightarrow> exn + refund_resp" where
  "call_razorpay_refund razorpay_client payment_id amount_paise =
     (case razorpay_client of
        None \<Rightarrow> Inl (RuntimeError ''Razorpay client not configured'')
      | Some client \<Rightarrow>
          (case payment_refund client payment_id amount_paise of
             Inl exc \<Rightarrow> Inl (RuntimeError ''Razorpay refund call error'')
           | Inr resp \<Rightarrow> Inr resp))"

record admin_action_body =
  aa_request_id :: string
  aa_action :: string
  aa_admin_note :: "string option"

datatype background_task =
    send_refund_email "string option" int
  | send_rejection_email "string option" "string option"

record admin_action_response =
  ar_ok :: bool
  ar_refund :: "refund_resp option"
  ar_tasks :: "background_task list"

definition refund_id_of :: "refund_resp \<Rightarrow> string option" where
  "refund_id_of resp = (case resp of RefundDict i \<Rightarrow> i | RefundOther \<Rightarrow> None)"

definition set_refunded :: "int \<Rightarrow> refund_resp \<Rightarrow> string option \<Rightarrow> doc_id \<times> return_doc \<Rightarrow> doc_id \<times> return_doc" where
  "set_refunded now resp note kv =
     (fst kv, (snd kv) \<lparr> rd_status := Some ''refunded'', rd_admin_action_at := Some now,
                          rd_razorpay_refund_id := refund_id_of resp, rd_admin_note := note \<rparr>)"

definition set_rejected :: "int \<Rightarrow> string option \<Rightarrow> doc_id \<times> return_doc \<Rightarrow> doc_id \<times> return_doc" where
  "set_rejected now note kv =
     (fst kv, (snd kv) \<lparr> rd_status := Some ''rejected'', rd_admin_action_at := Some now,
                          rd_admin_note := note \<rparr>)"

text \<open>
  \<open>admin_action\<close>. \<open>not payment_id or not amount\<close> holds for a missing or empty
  identifier and for a missing or zero amount.
\<close>

definition approve ::
  "database \<Rightarrow> razorpay_client option \<Rightarrow> int \<Rightarrow> admin_action_body \<Rightarrow> doc_id \<Rightarrow> return_doc
     \<Rightarrow> string \<Rightarrow> int \<Rightarrow> database option \<times> (http_error + admin_action_response)" where
  "approve d razorpay_client now action key req payment_id amount =
     (if payment_id = [] \<or> amount = 0
      then (Some d, Inl (HTTPException 400 ''Payment id or amount missing; cannot refund''))
      else case call_razorpay_refund razorpay_client payment_id amount of
             Inl exc \<Rightarrow> (Some d, Inl (HTTPException 500 ''Refund failed''))
           | Inr refund_resp \<Rightarrow>
               (Some (d \<lparr> return_requests :=
                           update_one (\<lambda>kv. fst kv = key)
                             (set_refunded now refund_resp (aa_admin_note action))
                             (return_requests d) \<rparr>),
                Inr \<lparr> ar_ok = True, ar_refund = Some refund_resp,
                      ar_tasks = [send_refund_email (rd_customer_email req) amount] \<rparr>))"

definition admin_action ::
  "database option \<Rightarrow> razorpay_client option \<Rightarrow> int \<Rightarrow> admin_action_body
     \<Rightarrow> database option \<times> (http_error + admin_action_response)" where
  "admin_action db razorpay_client now action =
     (case db of
        None \<Rightarrow> (db, Inl (HTTPException 500 ''Database dependency not provided''))
      | Some d \<Rightarrow>
          (case find_by_id (return_requests d) (aa_request_id action) of
             None \<Rightarrow> (db, Inl (HTTPException 404 ''Return request not found''))
           | Some req \<Rightarrow>
               let key = id_of_key (aa_request_id action)
               in if aa_action action = ''approve''
                  then if rd_status req = Some ''refunded'' \<or> rd_status req = Some ''approved''
                       then (db, Inl (HTTPException 400 ''Already processed''))
                       else (case (rd_razorpay_payment_id req, rd_refund_amount req) of
                               (Some payment_id, Some amount) \<Rightarrow>
                                 approve d razorpay_client now action key req payment_id amount
                             | _ \<Rightarrow>
                                 (db, Inl (HTTPException 400
                                             ''Payment id or amount missing; cannot refund'')))
                  else if aa_action action = ''reject''
                  then if \<not> (rd_status req = Some ''pending'' \<or> rd_status req = Some ''pickup-scheduled'')
                       then (db, Inl (HTTPException 400 ''Cannot reject processed request''))
                       else (Some (d \<lparr> return_requests :=
                                         update_one (\<lambda>kv. fst kv = key)
                                           (set_rejected now (aa_admin_note action))
                                           (return_requests d) \<rparr>),
                             Inr \<lparr> ar_ok = True, ar_refund = None,
                                   ar_tasks = [send_rejection_email (rd_customer_email req)
                                                 (aa_admin_note action)] \<rparr>)
                  else (db, Inl (HTTPException 400 ''Unknown action''))))"

section \<open>Password reset: \<open>app/routers/password_reset_db.py\<close>\<close>

text \<open>
  SHA-256 is taken as ideal: the digest of a token is the token under a constructor. The
  settings read from the environment are a record; \<open>SITE_ADMIN_EMAIL\<close> is already lowered
  and stripped, and empty when unset.
\<close>

datatype digest = SHA256 string

definition hash_token :: "string \<Rightarrow> digest" where
  "hash_token tok = SHA256 tok"

record password_reset =
  pw_token_hash :: digest
  pw_expires_at :: int
  pw_created_at :: int

record account =
  a_email :: string
  a_last_reset_sent_at :: "int option"
  a_password_reset :: "password_reset option"

record environment =
  APP_ENV :: "string option"
  FASTAPI_ENV :: "string option"
  SITE_ADMIN_EMAIL :: string
  RESET_TOKEN_EXPIRE_MINUTES :: int

text \<open>
  The dictionary a handler returns, and the body of a JSON response, are association
  lists from keys to texts. \<open>MessageOut\<close> is the response model of the route: its only
  field is the required \<open>detail\<close>, and a key that is no field of the model is ignored.
\<close>

type_synonym json_object = "(string \<times> string) list"

definition MessageOut :: "json_object \<Rightarrow> exn + json_object" where
  "MessageOut obj =
     (case map_of obj ''detail'' of
        None \<Rightarrow> Inl (ValueError ''detail: field required'')
      | Some d \<Rightarrow> Inr [(''detail'', d)])"

definition generic :: json_object where
  "generic = [(''detail'', ''If an account with that email exists, a password reset link has been sent.'')]"

definition dev_mode :: "environment \<Rightarrow> bool" where
  "dev_mode env =
     ((case APP_ENV env of None \<Rightarrow> ''development'' | Some v \<Rightarrow> v) = ''development''
      \<or> (case FASTAPI_ENV env of None \<Rightarrow> [] | Some v \<Rightarrow> v) = ''dev'')"

text \<open>
  \<open>forgot_password\<close>, the handler: the new collection, the scheduled mails (address and
  token), and the dictionary the handler returns. \<open>token\<close> is what \<open>_generate_token()\<close>
  draws, \<open>now\<close> is \<open>int(time.time())\<close> and \<open>utcnow\<close> is
  \<open>int(datetime.utcnow().timestamp())\<close>, the clock from which the expiry is counted.
\<close>

definition forgot_password ::
  "environment \<Rightarrow> account list \<Rightarrow> int \<Rightarrow> int \<Rightarrow> string \<Rightarrow> string
     \<Rightarrow> account list \<times> (string \<times> string) list \<times> json_object" where
  "forgot_password env users now utcnow token payload_email =
     (let email = strip (lower payload_email)
      in if SITE_ADMIN_EMAIL env \<noteq> [] \<and> email \<noteq> SITE_ADMIN_EMAIL env then (users, [], generic)
         else (case find (\<lambda>u. a_email u = email) users of
                 None \<Rightarrow> (users, [], generic)
               | Some user \<Rightarrow>
                   let last = (case a_last_reset_sent_at user of None \<Rightarrow> 0 | Some t \<Rightarrow> t)
                   in if now - last < 60 then (users, [], generic)
                      else let token_hash = hash_token token;
                               expires_ts = utcnow + 60 * RESET_TOKEN_EXPIRE_MINUTES env;
                               users' = update_one (\<lambda>u. a_email u = email)
                                          (\<lambda>u. u \<lparr> a_password_reset :=
                                                     Some \<lparr> pw_token_hash = token_hash,
                                                            pw_expires_at = expires_ts,
                                                            pw_created_at = now \<rparr>,
                                                   a_last_reset_sent_at := Some now \<rparr>) users
                           in if dev_mode env
                              then (users', [(email, token)],
                                    [(''detail'', ''reset created (dev)''), (''reset_token'', token)])
                              else (users', [(email, token)], generic)))"

text \<open>
  The route \<open>POST /auth/forgot-password\<close>, declared with \<open>response_model=MessageOut\<close>: the
  body of the response is the handler's dictionary as \<open>MessageOut\<close> reads it.
\<close>

definition post_forgot_password ::
  "environment \<Rightarrow> account list \<Rightarrow> int \<Rightarrow> int \<Rightarrow> string \<Rightarrow> string
     \<Rightarrow> account list \<times> (string \<times> string) list \<times> (http_error + json_object)" where
  "post_forgot_password env users now utcnow token payload_email =
     (let r = forgot_password env users now utcnow token payload_email
      in (fst r, fst (snd r),
          case MessageOut (snd (snd r)) of
            Inl errors \<Rightarrow> Inl (HTTPException 500 ''Internal Server Error'')
          | Inr body \<Rightarrow> Inr body))"

section \<open>The taxonomy as the specification words it\<close>

text \<open>
  The taxonomy in the words of the specification: the category is an allowed key and the
  subcategory belongs to that category's list.
\<close>

definition in_taxonomy :: "string \<Rightarrow> string \<Rightarrow> bool" where
  "in_taxonomy category subcategory =
     list_ex (\<lambda>entry. fst entry = category \<and> subcategory \<in> set (snd entry)) ALLOWED_CATEGORIES"

section \<open>Example data\<close>

text \<open>Concrete documents and clients at which the properties below are evaluated.\<close>

definition admin_user :: user_doc where
  "admin_user =
     \<lparr> u_oid = ObjectId ''65a1b2c3d4e5f60718293a4b'', u_id = None,
       u_email = Some ''admin@jlrp.local'', u_hashed_password = Some (Argon2 1 [112]),
       u_password_changed_at = TsInt 1000, u_roles = [], u_role = Some ''admin'' \<rparr>"

definition jeans_product :: product where
  "jeans_product =
     \<lparr> p_title = ''Slim jeans'', p_gender = ''men'', p_category = '' Clothing'',
       p_subcategory = ''Jeans '', p_price = 1499, p_description = None, p_images = [],
       p_available = True, p_created_at = None \<rparr>"

definition stored_product :: product where
  "stored_product =
     \<lparr> p_title = ''Slim jeans'', p_gender = ''men'', p_category = ''clothing'',
       p_subcategory = ''jeans'', p_price = 1499, p_description = None, p_images = [],
       p_available = True, p_created_at = Some 1700000000 \<rparr>"

definition no_update :: product_update where
  "no_update =
     \<lparr> pu_title = None, pu_gender = None, pu_category = None, pu_subcategory = None,
       pu_price = None, pu_description = None, pu_images = None, pu_available = None \<rparr>"

definition catalog :: "(doc_id \<times> product) list" where
  "catalog = [(ObjectId ''65a1b2c3d4e5f60718293a4b'', stored_product)]"

definition test_client :: razorpay_client where
  "test_client =
     \<lparr> order_create_call = (\<lambda>od. Inr \<lparr> rz_id = Some ''order_Nx1'', rz_amount = od_amount od \<rparr>),
       verify_payment_signature =
         (\<lambda>order_id payment_id signature.
            if signature = ''good'' then SignatureOk else SignatureVerificationError),
       payment_refund = (\<lambda>payment_id amount. Inr (RefundDict (Some ''rfnd_7'')))\<rparr>"

definition failing_client :: razorpay_client where
  "failing_client = test_client \<lparr> payment_refund := (\<lambda>payment_id amount. Inl (OtherError ''BadRequestError'')) \<rparr>"

definition home :: shipping_address where
  "home = \<lparr> sa_fullName = ''A B'', sa_phone = ''9000000000'', sa_pincode = ''560001'',
             sa_addressLine1 = ''1 Main Road'', sa_addressLine2 = Some [], sa_city = ''Bengaluru'',
             sa_state = ''KA'', sa_country = ''IN'', sa_landmark = Some [] \<rparr>"

definition shirt_item :: order_item where
  "shirt_item = \<lparr> oi_product_id = Some ''P12345'', oi_name = Some ''Shirt'', oi_price = Some 499,
                   oi_quantity = Some 1, oi_size = None, oi_image = None \<rparr>"

definition order_499 :: order_create where
  "order_499 = \<lparr> oc_email = ''customer@example.com'', oc_items = [shirt_item], oc_amount = 499,
                  oc_shipping_address = home \<rparr>"

definition empty_db :: database where
  "empty_db = \<lparr> orders = [], payments = [], return_requests = [] \<rparr>"

definition float_19_99 :: rat where
  "float_19_99 = 5626684784446013 / 281474976710656"

definition delivered_order :: order_doc where
  "delivered_order =
     \<lparr> o_email = None, o_customer_email = Some ''customer@example.com'',
       o_items = [\<lparr> oi_product_id = Some ''P12345'', oi_name = None, oi_price = Some float_19_99,
                     oi_quantity = None, oi_size = None, oi_image = None \<rparr>],
       o_amount = None, o_shipping_address = None, o_razorpay_order_id = None,
       o_razorpay_payment_id = Some ''pay_test_1234567890'', o_status = Some ''delivered'',
       o_created_at = None, o_updated_at = None \<rparr>"

definition returns_db :: database where
  "returns_db = \<lparr> orders = [(ObjectId ''65a1b2c3d4e5f60718293a4b'', delivered_order)],
                   payments = [], return_requests = [] \<rparr>"

definition customer :: current_user where
  "customer = \<lparr> cu_email = Some ''customer@example.com'' \<rparr>"

definition return_body :: return_create where
  "return_body = \<lparr> rc_order_id = ''65a1b2c3d4e5f60718293a4b'', rc_product_id = ''P12345'',
                    rc_reason = ''too small'', rc_photos = None \<rparr>"

definition value_of_http :: "http_error + 'a \<Rightarrow> 'a option" where
  "value_of_http r = (case r of Inl e \<Rightarrow> None | Inr v \<Rightarrow> Some v)"

definition recorded_refund :: "http_error + string \<times> return_doc \<Rightarrow> int option" where
  "recorded_refund r = (case r of Inl e \<Rightarrow> None | Inr res \<Rightarrow> rd_refund_amount (snd res))"

definition pending_return :: return_doc where
  "pending_return =
     \<lparr> rd_order_id = ''65a1b2c3d4e5f60718293a4b'', rd_product_id = ''P12345'',
       rd_customer_email = Some ''customer@example.com'', rd_reason = ''too small'',
       rd_photos = [], rd_status = Some ''pending'', rd_requested_at = Some 1700000000,
       rd_admin_action_at = None, rd_refund_amount = Some 49900,
       rd_razorpay_payment_id = Some ''pay_test_1234567890'', rd_razorpay_refund_id = None,
       rd_admin_note = None \<rparr>"

definition pending_db :: database where
  "pending_db = \<lparr> orders = [], payments = [],
                   return_requests = [(ObjectId ''75a1b2c3d4e5f60718293a4c'', pending_return)] \<rparr>"

definition approve_body :: admin_action_body where
  "approve_body = \<lparr> aa_request_id = ''75a1b2c3d4e5f60718293a4c'', aa_action = ''approve'',
                     aa_admin_note = Some ''ok'' \<rparr>"

definition reject_body :: admin_action_body where
  "reject_body = \<lparr> aa_request_id = ''75a1b2c3d4e5f60718293a4c'', aa_action = ''reject'',
                    aa_admin_note = Some ''worn'' \<rparr>"

definition refunded_return :: return_doc where
  "refunded_return = pending_return \<lparr> rd_status := Some ''refunded'',
                                        rd_razorpay_refund_id := Some ''rfnd_7'' \<rparr>"

definition refunded_db :: database where
  "refunded_db = \<lparr> orders = [], payments = [],
                    return_requests = [(ObjectId ''75a1b2c3d4e5f60718293a4c'', refunded_return)] \<rparr>"

definition second_client :: razorpay_client where
  "second_client =
     test_client \<lparr> order_create_call :=
                     (\<lambda>od. Inr \<lparr> rz_id = Some ''order_Nx2'', rz_amount = od_amount od \<rparr>) \<rparr>"

definition second_verify_body :: "string \<Rightarrow> verify_payload" where
  "second_verify_body signature =
     \<lparr> vp_razorpay_order_id = ''order_Nx2'', vp_razorpay_payment_id = ''pay_10'',
       vp_razorpay_signature = signature, vp_order_meta = None \<rparr>"

definition first_order :: "doc_id \<times> order_doc" where
  "first_order = OrderDB order_499 ''order_Nx1'' 100"

definition one_order_db :: database where
  "one_order_db = \<lparr> orders = [first_order], payments = [], return_requests = [] \<rparr>"

definition none_return_body :: return_create where
  "none_return_body = \<lparr> rc_order_id = ''None'', rc_product_id = ''P12345'',
                         rc_reason = ''too small'', rc_photos = None \<rparr>"

definition default_env :: environment where
  "default_env = \<lparr> APP_ENV = None, FASTAPI_ENV = None, SITE_ADMIN_EMAIL = [],
                    RESET_TOKEN_EXPIRE_MINUTES = 60 \<rparr>"

definition admin_account :: account where
  "admin_account = \<lparr> a_email = ''admin@jlrp.local'', a_last_reset_sent_at = Some 1700000000,
                      a_password_reset = None \<rparr>"

section \<open>Password hashing and verification\<close>

text \<open>Hashing and verifying through \<open>security.py\<close> alone applies no truncation on either side.\<close>

lemma get_password_hash_roundtrip:
  "verify_password ctx_verify password (Some (hash_password salt password)) = Inr True"
  by (simp add: verify_password_def hash_password_def get_password_hash_def ctx_hash_def)

lemma create_user_password_short:
  "length (encode_utf8 password) \<le> 72 \<Longrightarrow> create_user_password password = password"
  by (simp add: create_user_password_def Let_def)

text \<open>A password within the limit that \<open>create_user\<close> stored verifies.\<close>

lemma create_user_roundtrip_short:
  assumes "length (encode_utf8 password) \<le> 72"
  shows "verify_password ctx_verify password
           (uid_hashed_password (snd (create_user salt users
              \<lparr> ud_email = e, ud_password = Some password \<rparr>))) = Inr True"
  using assms
  by (simp add: create_user_def Let_def create_user_password_short verify_password_def ctx_hash_def)

text \<open>
  C7. The round trip fails for a password above the limit that went through \<open>create_user\<close>:
  for the password of 73 letters \<open>a\<close> (73 bytes), \<open>create_user\<close> stores the hash of its
  first 72 bytes, \<open>verify_password\<close> hashes all 73 bytes and answers \<open>False\<close>; only the
  truncated password verifies. The truncation before hashing has no counterpart before
  verification.
\<close>

theorem create_user_long_password_not_verified:
  "length (encode_utf8 (replicate 73 97)) = 73
   \<and> uid_hashed_password (snd (create_user 7 []
        \<lparr> ud_email = Some ''a@b.c'', ud_password = Some (replicate 73 97) \<rparr>))
       = Some (Argon2 7 (replicate 72 97))
   \<and> verify_password ctx_verify (replicate 73 97)
        (uid_hashed_password (snd (create_user 7 []
           \<lparr> ud_email = Some ''a@b.c'', ud_password = Some (replicate 73 97) \<rparr>))) = Inr False
   \<and> verify_password ctx_verify (replicate 72 97)
        (uid_hashed_password (snd (create_user 7 []
           \<lparr> ud_email = Some ''a@b.c'', ud_password = Some (replicate 73 97) \<rparr>))) = Inr True"
  by code_simp

text \<open>
  C8. \<open>verify_password\<close> never raises: whatever the library's \<open>verify\<close> does, the result is a
  boolean; it is \<open>False\<close> for a stored hash that is \<open>None\<close> or empty, and \<open>False\<close> whenever
  the library raises.
\<close>

theorem verify_password_never_raises:
  "(\<exists>b. verify_password verify plain hashed = Inr b)
   \<and> (falsy_hash hashed \<longrightarrow> verify_password verify plain hashed = Inr False)
   \<and> (\<forall>h exc. hashed = Some h \<and> verify plain h = Inl exc
        \<longrightarrow> verify_password verify plain hashed = Inr False)"
  by (auto simp: verify_password_def split: option.splits sum.splits)

theorem verify_password_never_raises_witness:
  "verify_password ctx_verify [112, 119] None = Inr False
   \<and> verify_password ctx_verify [112, 119] (Some (Unidentified [])) = Inr False
   \<and> ctx_verify [112, 119] (Unidentified ''not-a-hash'')
       = Inl (ValueError ''hash could not be identified'')
   \<and> verify_password ctx_verify [112, 119] (Some (Unidentified ''not-a-hash'')) = Inr False"
  using verify_password_never_raises [of ctx_verify "[112, 119]" None]
    verify_password_never_raises [of ctx_verify "[112, 119]" "Some (Unidentified [])"]
    verify_password_never_raises [of ctx_verify "[112, 119]" "Some (Unidentified ''not-a-hash'')"]
  by simp

section \<open>The admin check and password changes\<close>

lemma decode_created:
  "decode_access_token secret now (create_access_token secret T (SubjectStr user_id) ttl)
     = (if T + ttl < now then Inl (OtherError ''ExpiredSignatureError'')
        else Inr \<lparr> sub = Some user_id, iat = Some T, exp = Some (T + ttl) \<rparr>)"
  by (simp add: decode_access_token_def create_access_token_def)

text \<open>
  C5. A token issued at time \<open>T\<close> for a subject whose user document is found: the admin
  check returns the user exactly when the token has not expired (\<open>now \<le> exp\<close>), \<open>T\<close> is
  not earlier than the user's \<open>password_changed_at\<close> (in whole seconds, as
  \<open>_ts_from_value\<close> reads it) and the user has the admin or owner role; nothing else
  decides. Whenever \<open>T\<close> is earlier than \<open>password_changed_at\<close> the answer is a 401, expired
  or not.
\<close>

theorem require_admin_iat_revocation:
  assumes "user_id \<noteq> []"
    and "fetch_user_by_id_or_email users user_id = Some user"
  shows "(require_admin secret now users (create_access_token secret T (SubjectStr user_id) ttl)
            = Inr (user \<lparr> u_hashed_password := None \<rparr>)
          \<longleftrightarrow> now \<le> T + ttl \<and> \<not> T < ts_from_value (u_password_changed_at user)
              \<and> (''admin'' \<in> set (effective_roles user) \<or> ''owner'' \<in> set (effective_roles user)))
       \<and> (T < ts_from_value (u_password_changed_at user) \<longrightarrow>
            (\<exists>detail. require_admin secret now users
               (create_access_token secret T (SubjectStr user_id) ttl)
                 = Inl (HTTPException 401 detail)))"
  using assms
  by (auto simp: require_admin_def decode_created Let_def)

lemma fetch_admin_user:
  "fetch_user_by_id_or_email [admin_user] ''admin@jlrp.local'' = Some admin_user"
  by code_simp

lemma roles_admin_user: "effective_roles admin_user = [''admin'']"
  by code_simp

theorem require_admin_iat_revocation_witness:
  "require_admin ''k'' 2000 [admin_user]
       (create_access_token ''k'' 1500 (SubjectStr ''admin@jlrp.local'') 3600)
     = Inr (admin_user \<lparr> u_hashed_password := None \<rparr>)
   \<and> (\<exists>detail. require_admin ''k'' 950 [admin_user]
          (create_access_token ''k'' 900 (SubjectStr ''admin@jlrp.local'') 3600)
        = Inl (HTTPException 401 detail))"
proof -
  have ne: "''admin@jlrp.local'' \<noteq> []" by simp
  have pca: "ts_from_value (u_password_changed_at admin_user) = 1000"
    by (simp add: admin_user_def)
  show ?thesis
    using require_admin_iat_revocation [OF ne fetch_admin_user, of "''k''" 2000 1500 3600]
      require_admin_iat_revocation [OF ne fetch_admin_user, of "''k''" 950 900 3600]
    by (simp add: pca roles_admin_user)
qed

section \<open>Taxonomy validation\<close>

lemma ALLOWED_CATEGORIES_eval:
  "ALLOWED_CATEGORIES =
     [(''clothing'', [''tshirt'', ''jeans'', ''kurti'', ''saree'', ''jacket'', ''shirt'',
                     ''trouser'', ''shorts'', ''kurta''])]"
  by code_simp

lemma subcategory_allowed_taxonomy: "subcategory_allowed c s = in_taxonomy c s"
  by (simp add: subcategory_allowed_def in_taxonomy_def ALLOWED_CATEGORIES_eval)

lemma in_taxonomy_category: "in_taxonomy c s \<Longrightarrow> c \<in> set (map fst ALLOWED_CATEGORIES) \<and> c \<noteq> []"
  by (auto simp: in_taxonomy_def ALLOWED_CATEGORIES_eval)

lemma map_of_update_one:
  "map_of (update_one (\<lambda>kv. fst kv = key) (\<lambda>kv. (fst kv, g (snd kv))) xs) key
     = map_option g (map_of xs key)"
  by (induction xs) auto

lemma ProductCreate_taxonomy:
  assumes "1 \<le> length (p_title raw)" and "p_gender raw \<in> set GENDERS" and "0 \<le> p_price raw"
  shows "(\<exists>p. ProductCreate raw = Inr p)
         \<longleftrightarrow> in_taxonomy (lower (strip (p_category raw))) (lower (strip (p_subcategory raw)))"
proof (cases "lower (strip (p_category raw)) \<in> set (map fst ALLOWED_CATEGORIES)")
  case True
  then have ne: "lower (strip (p_category raw)) \<noteq> []"
    by (auto simp: ALLOWED_CATEGORIES_eval)
  show ?thesis using assms True ne
    by (auto simp: ProductCreate_def ProductBase_def validate_category_def validate_subcategory_def Let_def
        value_of_def errors_of_def subcategory_allowed_taxonomy)
next
  case False
  then have "\<not> in_taxonomy (lower (strip (p_category raw))) (lower (strip (p_subcategory raw)))"
    using in_taxonomy_category by blast
  then show ?thesis using assms False
    by (auto simp: ProductCreate_def ProductBase_def validate_category_def validate_subcategory_def Let_def
        value_of_def errors_of_def)
qed

lemma validate_category_ok:
  "lower (strip c) \<in> set (map fst ALLOWED_CATEGORIES) \<Longrightarrow> validate_category c = Inr (lower (strip c))"
  by (simp add: validate_category_def Let_def)

lemma validate_category_bad:
  "lower (strip c) \<notin> set (map fst ALLOWED_CATEGORIES) \<Longrightarrow> \<exists>e. validate_category c = Inl e"
  by (simp add: validate_category_def Let_def)

lemma ProductUpdate_both:
  assumes "pu_gender u = None \<or> (\<exists>g. pu_gender u = Some g \<and> g \<in> set GENDERS)"
    and "pu_category u = Some c" and "pu_subcategory u = Some s"
  shows "ProductUpdate u =
           (if in_taxonomy (lower (strip c)) (lower (strip s))
            then Inr (u \<lparr> pu_category := Some (lower (strip c)),
                          pu_subcategory := Some (lower (strip s)) \<rparr>)
            else Inl (case ProductUpdate u of Inl es \<Rightarrow> es | Inr p \<Rightarrow> []))"
proof (cases "lower (strip c) \<in> set (map fst ALLOWED_CATEGORIES)")
  case True
  then have ne: "lower (strip c) \<noteq> []" by (auto simp: ALLOWED_CATEGORIES_eval)
  show ?thesis using assms ne
    by (auto simp: ProductUpdate_def validate_category_update_def validate_category_ok [OF True]
        validate_subcategory_update_def validate_subcategory_def Let_def errors_of_def
        subcategory_allowed_taxonomy)
next
  case False
  then have nt: "\<not> in_taxonomy (lower (strip c)) (lower (strip s))"
    using in_taxonomy_category by blast
  from validate_category_bad [OF False] obtain e where e: "validate_category c = Inl e" by blast
  show ?thesis using assms nt
    by (auto simp: ProductUpdate_def validate_category_update_def e
        validate_subcategory_update_def validate_subcategory_def Let_def errors_of_def)
qed

lemma ProductUpdate_category_only:
  assumes "pu_gender u = None \<or> (\<exists>g. pu_gender u = Some g \<and> g \<in> set GENDERS)"
    and "pu_category u = Some c" and "pu_subcategory u = None"
  shows "ProductUpdate u =
           (if lower (strip c) \<in> set (map fst ALLOWED_CATEGORIES)
            then Inr (u \<lparr> pu_category := Some (lower (strip c)), pu_subcategory := None \<rparr>)
            else Inl (case ProductUpdate u of Inl es \<Rightarrow> es | Inr p \<Rightarrow> []))"
proof (cases "lower (strip c) \<in> set (map fst ALLOWED_CATEGORIES)")
  case True
  show ?thesis using assms True
    by (auto simp: ProductUpdate_def validate_category_update_def validate_category_ok [OF True]
        validate_subcategory_update_def Let_def errors_of_def)
next
  case False
  from validate_category_bad [OF False] obtain e where e: "validate_category c = Inl e" by blast
  show ?thesis using assms False
    by (auto simp: ProductUpdate_def validate_category_update_def e
        validate_subcategory_update_def Let_def errors_of_def)
qed

lemma ProductUpdate_subcategory_only:
  assumes "pu_gender u = None \<or> (\<exists>g. pu_gender u = Some g \<and> g \<in> set GENDERS)"
    and "pu_category u = None" and "pu_subcategory u = Some s"
  shows "ProductUpdate u = Inr (u \<lparr> pu_category := None, pu_subcategory := Some (lower (strip s)) \<rparr>)"
  using assms
  by (auto simp: ProductUpdate_def validate_category_update_def
      validate_subcategory_update_def validate_subcategory_def Let_def errors_of_def)

text \<open>
  C6. An update that supplies only the subcategory is not checked against the taxonomy:
  for the stored product (clothing, jeans), the body with only \<open>subcategory = banana\<close> is
  accepted, the pair (clothing, banana), which is outside the taxonomy, is written, and the
  answer is a 500, since the document read back does not validate against the response
  model; no validation error is raised. The same pair is refused before any write when
  both fields are supplied, and on create.
\<close>

theorem update_subcategory_only_not_validated:
  "update_product catalog ''65a1b2c3d4e5f60718293a4b''
       (no_update \<lparr> pu_subcategory := Some ''banana'' \<rparr>)
     = ([(ObjectId ''65a1b2c3d4e5f60718293a4b'', stored_product \<lparr> p_subcategory := ''banana'' \<rparr>)],
        Inl (HTTPException 500 ''Internal Server Error''))
   \<and> \<not> in_taxonomy ''clothing'' ''banana''
   \<and> update_product catalog ''65a1b2c3d4e5f60718293a4b''
       (no_update \<lparr> pu_category := Some ''clothing'', pu_subcategory := Some ''banana'' \<rparr>)
     = (catalog, Inl (HTTPException 422 ''validation error''))
   \<and> create_product [] (ObjectId ''65a1b2c3d4e5f60718293a4b'') 1700000000
       (jeans_product \<lparr> p_subcategory := ''banana'' \<rparr>)
     = ([], Inl (HTTPException 422 ''validation error''))
   \<and> create_product [] (ObjectId ''65a1b2c3d4e5f60718293a4b'') 1700000000 jeans_product
     = ([(ObjectId ''65a1b2c3d4e5f60718293a4b'', stored_product)],
        Inr (''65a1b2c3d4e5f60718293a4b'', stored_product))
   \<and> update_product catalog ''65a1b2c3d4e5f60718293a4b''
       (no_update \<lparr> pu_category := Some ''clothing'', pu_subcategory := Some ''SAREE'' \<rparr>)
     = ([(ObjectId ''65a1b2c3d4e5f60718293a4b'', stored_product \<lparr> p_subcategory := ''saree'' \<rparr>)],
        Inr (''65a1b2c3d4e5f60718293a4b'', stored_product \<lparr> p_subcategory := ''saree'' \<rparr>))"
  by code_simp

section \<open>Products in doubles at the amounts used below\<close>

lemma bit_length_numeral:
  "bit_length 0 = 0" "bit_length (Suc 0) = 1" "bit_length 1 = 1"
  "bit_length (numeral (num.Bit0 k)) = Suc (bit_length (numeral k))"
  "bit_length (numeral (num.Bit1 k)) = Suc (bit_length (numeral k))"
  by (simp_all add: bit_length.simps [of "numeral (num.Bit0 k)"]
        bit_length.simps [of "numeral (num.Bit1 k)"]
        bit_length.simps [of 0] bit_length.simps [of 1] bit_length.simps [of "Suc 0"])

lemma quotient_of_49900: "quotient_of \<bar>499 * 100 :: rat\<bar> = (49900, 1)"
  by code_simp

lemma exponent_of_49900: "exponent_of (499 * 100) = 15"
  unfolding exponent_of_def Let_def quotient_of_49900
  by (simp add: bit_length_numeral pow2_def)

lemma float_mul_499: "float_mul 499 100 = Some 49900"
  unfolding float_mul_def round_to_double_def Let_def exponent_of_49900
  by (simp add: pow2_def py_round_def)

lemma quotient_of_19_99:
  "quotient_of \<bar>float_19_99 * 100\<bar> = (140667119611150325, 70368744177664)"
  unfolding float_19_99_def by code_simp

lemma exponent_of_19_99: "exponent_of (float_19_99 * 100) = 10"
  unfolding exponent_of_def Let_def quotient_of_19_99
  by (simp add: bit_length_numeral pow2_def float_19_99_def)

lemma floor_19_99: "\<lfloor>140667119611150325 / 16 :: rat\<rfloor> = 8791694975696895"
  by (simp add: floor_eq_iff)

lemma float_mul_19_99: "float_mul float_19_99 100 = Some (8791694975696895 / 4398046511104)"
  unfolding float_mul_def round_to_double_def Let_def exponent_of_19_99
  by (simp add: py_round_def Let_def pow2_def float_19_99_def floor_19_99)

section \<open>The payment flow\<close>

lemma update_one_append_last:
  "\<forall>x \<in> set xs. \<not> p x \<Longrightarrow> p y \<Longrightarrow> update_one p f (xs @ [y]) = xs @ [f y]"
  by (induction xs) auto

lemma update_one_no_match: "\<forall>x \<in> set xs. \<not> p x \<Longrightarrow> update_one p f xs = xs"
  by (induction xs) auto

lemma order_data_499:
  "order_data_of 499 = Inr \<lparr> od_amount = 49900, od_currency = ''INR'', od_payment_capture = 1 \<rparr>"
  by (simp add: order_data_of_def float_mul_499 py_round_def)

text \<open>
  On a database that holds no document under the null identifier, a first order of 499
  rupees goes through as the scenario says: 49900 minor units are sent to the gateway, the
  order is stored with status \<open>PENDING_PAYMENT\<close>, an accepted signature makes it \<open>PAID\<close> and
  adds one payment record, a refused one makes it \<open>FAILED\<close> with a 400.
\<close>

lemma first_order_end_to_end:
  assumes "oc_amount payload = 499"
    and "order_create_call client \<lparr> od_amount = 49900, od_currency = ''INR'', od_payment_capture = 1 \<rparr>
           = Inr rz"
    and "rz_id rz = Some rid"
    and "NullId \<notin> set (map fst (orders d))"
    and "\<forall>kv \<in> set (orders d). o_razorpay_order_id (snd kv) \<noteq> Some rid"
    and "vp_razorpay_order_id vp = rid"
    and "stored = snd (OrderDB payload rid now)"
  shows "create_order (Some client) (Some d) now payload
           = (Some (d \<lparr> orders := orders d @ [(NullId, stored)] \<rparr>),
              Inr \<lparr> cr_order_id = Some rid, cr_amount = 499, cr_currency = ''INR'',
                    cr_db_order_id = Some ''None'', cr_raw = rz \<rparr>)"
    and "o_status stored = Some ''PENDING_PAYMENT''"
    and "verify_payment_signature client rid (vp_razorpay_payment_id vp) (vp_razorpay_signature vp)
            = SignatureOk \<Longrightarrow>
          verify_payment (Some client) (Some (d \<lparr> orders := orders d @ [(NullId, stored)] \<rparr>)) later vp
            = (Some (d \<lparr> orders := orders d @
                           [(NullId, stored
                               \<lparr> o_razorpay_payment_id := Some (vp_razorpay_payment_id vp),
                                 o_status := Some ''PAID'', o_updated_at := Some later \<rparr>)],
                         payments := payments d @
                           [\<lparr> pr_order_id = rid, pr_payment_id = vp_razorpay_payment_id vp,
                              pr_signature = vp_razorpay_signature vp, pr_meta = vp_order_meta vp,
                              pr_created_at = later \<rparr>] \<rparr>),
               Inr (''success'', ''Payment verified successfully!''))"
    and "verify_payment_signature client rid (vp_razorpay_payment_id vp) (vp_razorpay_signature vp)
            = SignatureVerificationError \<Longrightarrow>
          verify_payment (Some client) (Some (d \<lparr> orders := orders d @ [(NullId, stored)] \<rparr>)) later vp
            = (Some (d \<lparr> orders := orders d @
                           [(NullId, stored \<lparr> o_status := Some ''FAILED'', o_updated_at := Some later \<rparr>)] \<rparr>),
               Inl (HTTPException 400 ''Invalid payment signature''))"
proof -
  show "create_order (Some client) (Some d) now payload
           = (Some (d \<lparr> orders := orders d @ [(NullId, stored)] \<rparr>),
              Inr \<lparr> cr_order_id = Some rid, cr_amount = 499, cr_currency = ''INR'',
                    cr_db_order_id = Some ''None'', cr_raw = rz \<rparr>)"
    using assms(1-4,7)
    by (simp add: create_order_def order_data_499 save_order_def insert_one_def Let_def
        OrderDB_def str_of_id_def)
  show "o_status stored = Some ''PENDING_PAYMENT''"
    using assms(7) by (simp add: OrderDB_def)
  have nomatch: "\<forall>x \<in> set (orders d). \<not> has_razorpay_order_id rid x"
    using assms(5) by (simp add: has_razorpay_order_id_def)
  have match: "has_razorpay_order_id rid (NullId, stored)"
    using assms(7) by (simp add: has_razorpay_order_id_def OrderDB_def)
  note upd = update_one_append_last [OF nomatch match]
  show "verify_payment_signature client rid (vp_razorpay_payment_id vp) (vp_razorpay_signature vp)
            = SignatureOk \<Longrightarrow>
          verify_payment (Some client) (Some (d \<lparr> orders := orders d @ [(NullId, stored)] \<rparr>)) later vp
            = (Some (d \<lparr> orders := orders d @
                           [(NullId, stored
                               \<lparr> o_razorpay_payment_id := Some (vp_razorpay_payment_id vp),
                                 o_status := Some ''PAID'', o_updated_at := Some later \<rparr>)],
                         payments := payments d @
                           [\<lparr> pr_order_id = rid, pr_payment_id = vp_razorpay_payment_id vp,
                              pr_signature = vp_razorpay_signature vp, pr_meta = vp_order_meta vp,
                              pr_created_at = later \<rparr>] \<rparr>),
               Inr (''success'', ''Payment verified successfully!''))"
    using assms(6) by (simp add: verify_payment_def upd mark_paid_def)
  show "verify_payment_signature client rid (vp_razorpay_payment_id vp) (vp_razorpay_signature vp)
            = SignatureVerificationError \<Longrightarrow>
          verify_payment (Some client) (Some (d \<lparr> orders := orders d @ [(NullId, stored)] \<rparr>)) later vp
            = (Some (d \<lparr> orders := orders d @
                           [(NullId, stored \<lparr> o_status := Some ''FAILED'', o_updated_at := Some later \<rparr>)] \<rparr>),
               Inl (HTTPException 400 ''Invalid payment signature''))"
    using assms(6) by (simp add: verify_payment_def upd mark_failed_def)
qed

text \<open>
  Every order of the payment flow is inserted under the null identifier, so once one is
  stored no other is: the insert is refused and the failure is swallowed.
\<close>

lemma save_order_second:
  assumes "NullId \<in> set (map fst (orders d))"
  shows "save_order (Some d) now payload rz = (Some d, None)"
  using assms by (simp add: save_order_def insert_one_def OrderDB_def Let_def split: option.splits)

text \<open>
  C1. The scenario holds for the first order only. After one order of the payment flow is
  stored, a second call with amount 499, answered by the gateway with order \<open>order_Nx2\<close>,
  sends 49900 minor units but persists nothing (the database is unchanged and
  \<open>db_order_id\<close> is \<open>None\<close>); a verify call for it with an accepted signature inserts a
  payment record and answers success while no order becomes \<open>PAID\<close>; with a refused
  signature the answer is 400 and no order becomes \<open>FAILED\<close>.
\<close>

theorem second_order_not_persisted:
  "create_order (Some test_client) (Some empty_db) 100 order_499
     = (Some one_order_db,
        Inr \<lparr> cr_order_id = Some ''order_Nx1'', cr_amount = 499, cr_currency = ''INR'',
              cr_db_order_id = Some ''None'',
              cr_raw = \<lparr> rz_id = Some ''order_Nx1'', rz_amount = 49900 \<rparr> \<rparr>)
   \<and> create_order (Some second_client) (Some one_order_db) 150 order_499
     = (Some one_order_db,
        Inr \<lparr> cr_order_id = Some ''order_Nx2'', cr_amount = 499, cr_currency = ''INR'',
              cr_db_order_id = None,
              cr_raw = \<lparr> rz_id = Some ''order_Nx2'', rz_amount = 49900 \<rparr> \<rparr>)
   \<and> verify_payment (Some second_client) (Some one_order_db) 200 (second_verify_body ''good'')
     = (Some (one_order_db
                \<lparr> payments := [\<lparr> pr_order_id = ''order_Nx2'', pr_payment_id = ''pay_10'',
                                 pr_signature = ''good'', pr_meta = None, pr_created_at = 200 \<rparr>] \<rparr>),
        Inr (''success'', ''Payment verified successfully!''))
   \<and> verify_payment (Some second_client) (Some one_order_db) 200 (second_verify_body ''forged'')
     = (Some one_order_db, Inl (HTTPException 400 ''Invalid payment signature''))
   \<and> map (\<lambda>kv. o_status (snd kv)) (orders one_order_db) = [Some ''PENDING_PAYMENT'']"
proof -
  have amount: "oc_amount order_499 = 499" by (simp add: order_499_def)
  have c1: "create_order (Some test_client) (Some empty_db) 100 order_499
     = (Some one_order_db,
        Inr \<lparr> cr_order_id = Some ''order_Nx1'', cr_amount = 499, cr_currency = ''INR'',
              cr_db_order_id = Some ''None'',
              cr_raw = \<lparr> rz_id = Some ''order_Nx1'', rz_amount = 49900 \<rparr> \<rparr>)"
    by (simp add: create_order_def amount order_data_499 save_order_def insert_one_def Let_def
        test_client_def empty_db_def one_order_db_def first_order_def str_of_id_def OrderDB_def)
  have held: "NullId \<in> set (map fst (orders one_order_db))"
    by (simp add: one_order_db_def first_order_def OrderDB_def)
  have c2: "create_order (Some second_client) (Some one_order_db) 150 order_499
     = (Some one_order_db,
        Inr \<lparr> cr_order_id = Some ''order_Nx2'', cr_amount = 499, cr_currency = ''INR'',
              cr_db_order_id = None,
              cr_raw = \<lparr> rz_id = Some ''order_Nx2'', rz_amount = 49900 \<rparr> \<rparr>)"
    by (simp add: create_order_def amount order_data_499 save_order_second [OF held] Let_def
        second_client_def test_client_def)
  have nomatch: "\<forall>x \<in> set (orders one_order_db). \<not> has_razorpay_order_id ''order_Nx2'' x"
    by (simp add: one_order_db_def first_order_def OrderDB_def has_razorpay_order_id_def)
  have c3: "verify_payment (Some second_client) (Some one_order_db) 200 (second_verify_body ''good'')
     = (Some (one_order_db
                \<lparr> payments := [\<lparr> pr_order_id = ''order_Nx2'', pr_payment_id = ''pay_10'',
                                 pr_signature = ''good'', pr_meta = None, pr_created_at = 200 \<rparr>] \<rparr>),
        Inr (''success'', ''Payment verified successfully!''))"
    using update_one_no_match [OF nomatch]
    by (simp add: verify_payment_def second_verify_body_def second_client_def test_client_def)
       (simp add: one_order_db_def)
  have c4: "verify_payment (Some second_client) (Some one_order_db) 200 (second_verify_body ''forged'')
     = (Some one_order_db, Inl (HTTPException 400 ''Invalid payment signature''))"
    using update_one_no_match [OF nomatch]
    by (simp add: verify_payment_def second_verify_body_def second_client_def test_client_def)
  have c5: "map (\<lambda>kv. o_status (snd kv)) (orders one_order_db) = [Some ''PENDING_PAYMENT'']"
    by (simp add: one_order_db_def first_order_def OrderDB_def)
  show ?thesis using c1 c2 c3 c4 c5 by blast
qed

section \<open>Return requests\<close>

lemma find_by_id_update_one:
  "find_by_id (update_one (\<lambda>kv. fst kv = id_of_key k) (\<lambda>kv. (fst kv, g (snd kv))) coll) k
     = map_option g (find_by_id coll k)"
  by (simp add: find_by_id_def map_of_update_one)

text \<open>
  What \<open>create_return_request\<close> does for the owner of a delivered order that the lookup
  finds: a zero amount (no item with the product identifier, or a price below one paisa)
  is rejected with 400; otherwise the amount of the first item with the product
  identifier, truncated to whole paise, is recorded.
\<close>

lemma create_return_request_amount:
  assumes "3 \<le> length (rc_reason body)"
    and "find_by_id (orders d) (rc_order_id body) = Some order"
    and "o_customer_email order = cu_email user"
    and "o_status order = Some ''delivered''"
    and "refund_amount_paise (o_items order) (rc_product_id body) = Inr amount"
  shows "amount = 0 \<longrightarrow>
           create_return_request (Some d) user new_id now body
             = (Some d, Inl (HTTPException 400 ''Product not found in order or price is zero''))"
    and "amount \<noteq> 0 \<longrightarrow> new_id \<notin> set (map fst (return_requests d)) \<longrightarrow> cu_email user \<noteq> None \<longrightarrow>
           recorded_refund (snd (create_return_request (Some d) user new_id now body)) = Some amount"
  using assms
  by (auto simp: create_return_request_def Let_def insert_one_def recorded_refund_def)

lemma refund_amount_paise_absent:
  "\<forall>item \<in> set items. py_str (oi_product_id item) \<noteq> product_id
     \<Longrightarrow> refund_amount_paise items product_id = Inr 0"
  by (induction items) auto

lemma delivered_order_lookup:
  "find_by_id (orders returns_db) (rc_order_id return_body) = Some delivered_order"
  by (simp add: find_by_id_def id_of_key_def returns_db_def return_body_def)
     code_simp

lemma delivered_order_refund:
  "refund_amount_paise (o_items delivered_order) (rc_product_id return_body) = Inr 1998"
  by (simp add: delivered_order_def return_body_def py_str_def float_mul_19_99 py_int_def
      floor_eq_iff)

text \<open>
  C2. The recorded amount is the truncation, not the rounding, of \<open>P * 100\<close>: for the owner
  of a delivered order holding product \<open>P12345\<close> at the price \<open>19.99\<close>, the request is
  stored with \<open>refund_amount = 1998\<close>, while \<open>round(P * 100)\<close> is 1999.
\<close>

theorem refund_amount_truncated:
  "recorded_refund (snd (create_return_request (Some returns_db) customer
       (ObjectId ''75a1b2c3d4e5f60718293a4c'') 1700000000 return_body)) = Some 1998
   \<and> py_round (float_19_99 * 100) = 1999"
proof -
  have r: "3 \<le> length (rc_reason return_body)" by (simp add: return_body_def)
  have o: "o_customer_email delivered_order = cu_email customer"
    by (simp add: delivered_order_def customer_def)
  have st: "o_status delivered_order = Some ''delivered''" by (simp add: delivered_order_def)
  have fresh: "ObjectId ''75a1b2c3d4e5f60718293a4c'' \<notin> set (map fst (return_requests returns_db))"
    by (simp add: returns_db_def)
  have e: "cu_email customer \<noteq> None" by (simp add: customer_def)
  have "recorded_refund (snd (create_return_request (Some returns_db) customer
       (ObjectId ''75a1b2c3d4e5f60718293a4c'') 1700000000 return_body)) = Some 1998"
    using create_return_request_amount(2) [OF r delivered_order_lookup o st delivered_order_refund]
      fresh e by simp
  moreover have "py_round (float_19_99 * 100) = 1999" by code_simp
  ultimately show ?thesis by simp
qed

text \<open>
  The lookup of \<open>create_return_request\<close> turns the order id of the request into an object
  identifier or a string, never into the null identifier: a collection that holds only
  documents of the payment flow answers every return request with 404.
\<close>

lemma id_of_key_not_null: "id_of_key key \<noteq> NullId"
  by (simp add: id_of_key_def)

lemma find_by_id_null_only:
  "\<forall>kv \<in> set coll. fst kv = NullId \<Longrightarrow> find_by_id coll key = None"
  unfolding find_by_id_def
  by (induction coll) (auto simp: id_of_key_not_null)

lemma return_request_not_found:
  assumes "\<forall>kv \<in> set (orders d). fst kv = NullId"
    and "3 \<le> length (rc_reason body)"
  shows "create_return_request (Some d) user new_id now body
           = (Some d, Inl (HTTPException 404 ''Order not found''))"
  using assms by (simp add: create_return_request_def find_by_id_null_only)

text \<open>
  C9. The order that the payment flow stores for the buyer \<open>customer@example.com\<close> has the
  address under \<open>email\<close> and no \<open>customer_email\<close>, and it is stored under the null
  identifier. A return request by the same buyer that names it by the \<open>db_order_id\<close> of
  the create-order answer (the text \<open>None\<close>), or by any object identifier, is answered
  with 404 \<open>Order not found\<close>: the ownership test, and its 403, is not reached.
\<close>

theorem return_of_payment_flow_order_not_found:
  "fst (create_order (Some test_client) (Some empty_db) 100 order_499) = Some one_order_db
   \<and> map_option cr_db_order_id
        (value_of_http (snd (create_order (Some test_client) (Some empty_db) 100 order_499)))
       = Some (Some ''None'')
   \<and> orders one_order_db = [first_order]
   \<and> fst first_order = NullId
   \<and> o_email (snd first_order) = cu_email customer
   \<and> o_customer_email (snd first_order) = None
   \<and> create_return_request (Some one_order_db) customer (ObjectId ''75a1b2c3d4e5f60718293a4c'')
        1700000000 none_return_body
       = (Some one_order_db, Inl (HTTPException 404 ''Order not found''))
   \<and> create_return_request (Some one_order_db) customer (ObjectId ''75a1b2c3d4e5f60718293a4c'')
        1700000000 return_body
       = (Some one_order_db, Inl (HTTPException 404 ''Order not found''))"
proof -
  have amount: "oc_amount order_499 = 499" by (simp add: order_499_def)
  have c: "create_order (Some test_client) (Some empty_db) 100 order_499
     = (Some one_order_db,
        Inr \<lparr> cr_order_id = Some ''order_Nx1'', cr_amount = 499, cr_currency = ''INR'',
              cr_db_order_id = Some ''None'',
              cr_raw = \<lparr> rz_id = Some ''order_Nx1'', rz_amount = 49900 \<rparr> \<rparr>)"
    by (simp add: create_order_def amount order_data_499 save_order_def insert_one_def Let_def
        test_client_def empty_db_def one_order_db_def first_order_def str_of_id_def OrderDB_def)
  have only: "\<forall>kv \<in> set (orders one_order_db). fst kv = NullId"
    by (simp add: one_order_db_def first_order_def OrderDB_def)
  have r: "3 \<le> length (rc_reason none_return_body)" "3 \<le> length (rc_reason return_body)"
    by (simp_all add: none_return_body_def return_body_def)
  have f: "orders one_order_db = [first_order]" "fst first_order = NullId"
    "o_email (snd first_order) = cu_email customer" "o_customer_email (snd first_order) = None"
    by (simp_all add: one_order_db_def first_order_def OrderDB_def customer_def order_499_def)
  show ?thesis
    using return_request_not_found [OF only r(1)] return_request_not_found [OF only r(2)] f
    by (simp add: c value_of_http_def)
qed

lemma set_refunded_shape:
  "set_refunded now resp note
     = (\<lambda>kv. (fst kv, (snd kv) \<lparr> rd_status := Some ''refunded'', rd_admin_action_at := Some now,
                                  rd_razorpay_refund_id := refund_id_of resp, rd_admin_note := note \<rparr>))"
  by (rule ext) (simp add: set_refunded_def)

lemma set_rejected_shape:
  "set_rejected now note
     = (\<lambda>kv. (fst kv, (snd kv) \<lparr> rd_status := Some ''rejected'', rd_admin_action_at := Some now,
                                  rd_admin_note := note \<rparr>))"
  by (rule ext) (simp add: set_rejected_def)

lemma admin_action_approve_ok:
  assumes "find_by_id (return_requests d) (aa_request_id a) = Some req"
    and "aa_action a = ''approve''"
    and "rd_status req \<noteq> Some ''refunded''" and "rd_status req \<noteq> Some ''approved''"
    and "rd_razorpay_payment_id req = Some payment_id" and "payment_id \<noteq> []"
    and "rd_refund_amount req = Some amount" and "amount \<noteq> 0"
    and "call_razorpay_refund client payment_id amount = Inr resp"
  shows "admin_action (Some d) client now a
           = (Some (d \<lparr> return_requests :=
                         update_one (\<lambda>kv. fst kv = id_of_key (aa_request_id a))
                           (set_refunded now resp (aa_admin_note a)) (return_requests d) \<rparr>),
              Inr \<lparr> ar_ok = True, ar_refund = Some resp,
                    ar_tasks = [send_refund_email (rd_customer_email req) amount] \<rparr>)"
  using assms by (simp add: admin_action_def approve_def Let_def)

lemma admin_action_already_processed:
  assumes "find_by_id (return_requests d) (aa_request_id a) = Some req"
    and "aa_action a = ''approve''"
    and "rd_status req = Some ''refunded'' \<or> rd_status req = Some ''approved''"
  shows "admin_action (Some d) client now a = (Some d, Inl (HTTPException 400 ''Already processed''))"
  using assms by (auto simp: admin_action_def Let_def)

lemma admin_action_reject:
  assumes "find_by_id (return_requests d) (aa_request_id a) = Some req"
    and "aa_action a = ''reject''"
  shows "admin_action (Some d) client now a
           = (if rd_status req = Some ''pending'' \<or> rd_status req = Some ''pickup-scheduled''
              then (Some (d \<lparr> return_requests :=
                         update_one (\<lambda>kv. fst kv = id_of_key (aa_request_id a))
                           (set_rejected now (aa_admin_note a)) (return_requests d) \<rparr>),
                    Inr \<lparr> ar_ok = True, ar_refund = None,
                          ar_tasks = [send_rejection_email (rd_customer_email req) (aa_admin_note a)] \<rparr>)
              else (Some d, Inl (HTTPException 400 ''Cannot reject processed request'')))"
  using assms by (auto simp: admin_action_def Let_def)

text \<open>
  C3. For a return request that the lookup finds: approving it while its status is neither
  \<open>refunded\<close> nor \<open>approved\<close> (it carries a payment id and a non-zero amount, and the
  gateway answers the refund call) sets its status to \<open>refunded\<close> and stores the refund
  identifier of the gateway's answer; approving it again is then rejected with 400
  \<open>Already processed\<close>, and so is any approval of a request whose status is \<open>refunded\<close> or
  \<open>approved\<close>; rejecting succeeds exactly when the status is \<open>pending\<close> or
  \<open>pickup-scheduled\<close>, and is a 400 otherwise, in particular for a refunded request.
\<close>

theorem return_request_state_machine:
  assumes "find_by_id (return_requests d) (aa_request_id a) = Some req"
  shows "(aa_action a = ''approve'' \<and> rd_status req \<noteq> Some ''refunded''
            \<and> rd_status req \<noteq> Some ''approved''
            \<and> rd_razorpay_payment_id req = Some payment_id \<and> payment_id \<noteq> []
            \<and> rd_refund_amount req = Some amount \<and> amount \<noteq> 0
            \<and> call_razorpay_refund client payment_id amount = Inr resp \<longrightarrow>
          (\<exists>d'. admin_action (Some d) client now a
                   = (Some d', Inr \<lparr> ar_ok = True, ar_refund = Some resp,
                        ar_tasks = [send_refund_email (rd_customer_email req) amount] \<rparr>)
              \<and> find_by_id (return_requests d') (aa_request_id a)
                   = Some (req \<lparr> rd_status := Some ''refunded'', rd_admin_action_at := Some now,
                                  rd_razorpay_refund_id := refund_id_of resp,
                                  rd_admin_note := aa_admin_note a \<rparr>)
              \<and> admin_action (Some d') client2 later a
                   = (Some d', Inl (HTTPException 400 ''Already processed''))
              \<and> admin_action (Some d') client2 later (a \<lparr> aa_action := ''reject'' \<rparr>)
                   = (Some d', Inl (HTTPException 400 ''Cannot reject processed request''))))
       \<and> (aa_action a = ''approve''
            \<and> (rd_status req = Some ''refunded'' \<or> rd_status req = Some ''approved'') \<longrightarrow>
          admin_action (Some d) client now a
            = (Some d, Inl (HTTPException 400 ''Already processed'')))
       \<and> (aa_action a = ''reject'' \<longrightarrow>
          ((\<exists>r. snd (admin_action (Some d) client now a) = Inr r)
             \<longleftrightarrow> (rd_status req = Some ''pending'' \<or> rd_status req = Some ''pickup-scheduled''))
          \<and> ((rd_status req = Some ''pending'' \<or> rd_status req = Some ''pickup-scheduled'')
               \<or> admin_action (Some d) client now a
                    = (Some d, Inl (HTTPException 400 ''Cannot reject processed request''))))"
proof (intro conjI impI)
  assume h: "aa_action a = ''approve'' \<and> rd_status req \<noteq> Some ''refunded''
            \<and> rd_status req \<noteq> Some ''approved''
            \<and> rd_razorpay_payment_id req = Some payment_id \<and> payment_id \<noteq> []
            \<and> rd_refund_amount req = Some amount \<and> amount \<noteq> 0
            \<and> call_razorpay_refund client payment_id amount = Inr resp"
  define d' where "d' = d \<lparr> return_requests :=
                         update_one (\<lambda>kv. fst kv = id_of_key (aa_request_id a))
                           (set_refunded now resp (aa_admin_note a)) (return_requests d) \<rparr>"
  define req' where "req' = req \<lparr> rd_status := Some ''refunded'', rd_admin_action_at := Some now,
                                  rd_razorpay_refund_id := refund_id_of resp,
                                  rd_admin_note := aa_admin_note a \<rparr>"
  have first: "admin_action (Some d) client now a
                   = (Some d', Inr \<lparr> ar_ok = True, ar_refund = Some resp,
                        ar_tasks = [send_refund_email (rd_customer_email req) amount] \<rparr>)"
    using admin_action_approve_ok [OF assms] h unfolding d'_def by blast
  have found': "find_by_id (return_requests d') (aa_request_id a) = Some req'"
    unfolding d'_def req'_def set_refunded_shape
    using find_by_id_update_one
            [where g = "\<lambda>r. r \<lparr> rd_status := Some ''refunded'', rd_admin_action_at := Some now,
                                    rd_razorpay_refund_id := refund_id_of resp,
                                    rd_admin_note := aa_admin_note a \<rparr>"
               and k = "aa_request_id a" and coll = "return_requests d"]
    by (simp add: assms)
  have st: "rd_status req' = Some ''refunded''" by (simp add: req'_def)
  have again: "admin_action (Some d') client2 later a
                   = (Some d', Inl (HTTPException 400 ''Already processed''))"
    using admin_action_already_processed [OF found'] h st by blast
  have found'': "find_by_id (return_requests d') (aa_request_id (a \<lparr> aa_action := ''reject'' \<rparr>)) = Some req'"
    using found' by simp
  have rej: "admin_action (Some d') client2 later (a \<lparr> aa_action := ''reject'' \<rparr>)
                   = (Some d', Inl (HTTPException 400 ''Cannot reject processed request''))"
    using admin_action_reject [OF found'', of client2 later] st by simp
  show "\<exists>d'. admin_action (Some d) client now a
                   = (Some d', Inr \<lparr> ar_ok = True, ar_refund = Some resp,
                        ar_tasks = [send_refund_email (rd_customer_email req) amount] \<rparr>)
              \<and> find_by_id (return_requests d') (aa_request_id a)
                   = Some (req \<lparr> rd_status := Some ''refunded'', rd_admin_action_at := Some now,
                                  rd_razorpay_refund_id := refund_id_of resp,
                                  rd_admin_note := aa_admin_note a \<rparr>)
              \<and> admin_action (Some d') client2 later a
                   = (Some d', Inl (HTTPException 400 ''Already processed''))
              \<and> admin_action (Some d') client2 later (a \<lparr> aa_action := ''reject'' \<rparr>)
                   = (Some d', Inl (HTTPException 400 ''Cannot reject processed request''))"
    using first found' again rej unfolding req'_def by blast
next
  assume "aa_action a = ''approve''
            \<and> (rd_status req = Some ''refunded'' \<or> rd_status req = Some ''approved'')"
  then show "admin_action (Some d) client now a
            = (Some d, Inl (HTTPException 400 ''Already processed''))"
    using admin_action_already_processed [OF assms] by blast
next
  assume r: "aa_action a = ''reject''"
  show "(\<exists>r. snd (admin_action (Some d) client now a) = Inr r)
             \<longleftrightarrow> (rd_status req = Some ''pending'' \<or> rd_status req = Some ''pickup-scheduled'')"
    by (simp add: admin_action_reject [OF assms r])
next
  assume r: "aa_action a = ''reject''"
  show "(rd_status req = Some ''pending'' \<or> rd_status req = Some ''pickup-scheduled'')
               \<or> admin_action (Some d) client now a
                    = (Some d, Inl (HTTPException 400 ''Cannot reject processed request''))"
    by (simp add: admin_action_reject [OF assms r])
qed

text \<open>
  C4. When the refund call fails (no configured client, or the gateway's call raises),
  approving answers with a 500 and the database, and so the return request, is unchanged:
  its status is not \<open>refunded\<close> and no refund identifier is recorded.
\<close>

theorem refund_failure_leaves_request:
  assumes "find_by_id (return_requests d) (aa_request_id a) = Some req"
    and "aa_action a = ''approve''"
    and "rd_status req \<noteq> Some ''refunded''" and "rd_status req \<noteq> Some ''approved''"
    and "rd_razorpay_payment_id req = Some payment_id" and "payment_id \<noteq> []"
    and "rd_refund_amount req = Some amount" and "amount \<noteq> 0"
    and "client = None \<or> (\<exists>c exc. client = Some c \<and> payment_refund c payment_id amount = Inl exc)"
  shows "admin_action (Some d) client now a = (Some d, Inl (HTTPException 500 ''Refund failed''))
       \<and> (call_razorpay_refund client2 payment_id amount = Inr resp \<longrightarrow>
            admin_action (fst (admin_action (Some d) client now a)) client2 later a
              = (Some (d \<lparr> return_requests :=
                            update_one (\<lambda>kv. fst kv = id_of_key (aa_request_id a))
                              (set_refunded later resp (aa_admin_note a)) (return_requests d) \<rparr>),
                 Inr \<lparr> ar_ok = True, ar_refund = Some resp,
                       ar_tasks = [send_refund_email (rd_customer_email req) amount] \<rparr>))"
proof -
  have "\<exists>exc. call_razorpay_refund client payment_id amount = Inl exc"
    using assms(9) by (auto simp: call_razorpay_refund_def)
  then have failed: "admin_action (Some d) client now a
                       = (Some d, Inl (HTTPException 500 ''Refund failed''))"
    using assms(1-8) by (auto simp: admin_action_def approve_def Let_def)
  show ?thesis
    using failed admin_action_approve_ok [OF assms(1-8), of client2 resp later] by simp
qed

lemma request_lookup_examples:
  "find_by_id (return_requests pending_db) (aa_request_id approve_body) = Some pending_return"
  "find_by_id (return_requests pending_db) (aa_request_id reject_body) = Some pending_return"
  "find_by_id (return_requests refunded_db) (aa_request_id approve_body) = Some refunded_return"
  "find_by_id (return_requests refunded_db) (aa_request_id reject_body) = Some refunded_return"
  by code_simp+

lemma test_client_refunds:
  "call_razorpay_refund (Some test_client) ''pay_test_1234567890'' 49900
     = Inr (RefundDict (Some ''rfnd_7''))"
  by (simp add: call_razorpay_refund_def test_client_def)

theorem return_request_state_machine_witness:
  "(\<exists>d'. admin_action (Some pending_db) (Some test_client) 1700000100 approve_body
            = (Some d', Inr \<lparr> ar_ok = True, ar_refund = Some (RefundDict (Some ''rfnd_7'')),
                 ar_tasks = [send_refund_email (Some ''customer@example.com'') 49900] \<rparr>)
        \<and> find_by_id (return_requests d') ''75a1b2c3d4e5f60718293a4c''
            = Some (pending_return \<lparr> rd_status := Some ''refunded'',
                      rd_admin_action_at := Some 1700000100,
                      rd_razorpay_refund_id := Some ''rfnd_7'', rd_admin_note := Some ''ok'' \<rparr>)
        \<and> admin_action (Some d') (Some test_client) 1700000200 approve_body
            = (Some d', Inl (HTTPException 400 ''Already processed''))
        \<and> admin_action (Some d') (Some test_client) 1700000200
              (approve_body \<lparr> aa_action := ''reject'' \<rparr>)
            = (Some d', Inl (HTTPException 400 ''Cannot reject processed request'')))
   \<and> admin_action (Some refunded_db) (Some test_client) 1700000100 approve_body
       = (Some refunded_db, Inl (HTTPException 400 ''Already processed''))
   \<and> (\<exists>r. snd (admin_action (Some pending_db) (Some test_client) 1700000100 reject_body) = Inr r)
   \<and> admin_action (Some refunded_db) (Some test_client) 1700000100 reject_body
       = (Some refunded_db, Inl (HTTPException 400 ''Cannot reject processed request''))"
proof -
  have f: "aa_action approve_body = ''approve''" "aa_action reject_body = ''reject''"
    "aa_request_id approve_body = ''75a1b2c3d4e5f60718293a4c''"
    "aa_admin_note approve_body = Some ''ok''"
    "rd_status pending_return = Some ''pending''" "rd_status refunded_return = Some ''refunded''"
    "rd_razorpay_payment_id pending_return = Some ''pay_test_1234567890''"
    "rd_refund_amount pending_return = Some 49900"
    "rd_customer_email pending_return = Some ''customer@example.com''"
    by (simp_all add: approve_body_def reject_body_def pending_return_def refunded_return_def)
  have r: "refund_id_of (RefundDict (Some ''rfnd_7'')) = Some ''rfnd_7''"
    by (simp add: refund_id_of_def)
  show ?thesis
    using return_request_state_machine [OF request_lookup_examples(1),
            where payment_id = "''pay_test_1234567890''" and amount = 49900
              and client = "Some test_client" and resp = "RefundDict (Some ''rfnd_7'')"
              and now = 1700000100 and ?client2.0 = "Some test_client" and later = 1700000200]
      return_request_state_machine [OF request_lookup_examples(3),
            where payment_id = "''pay_test_1234567890''" and amount = 49900
              and client = "Some test_client" and resp = "RefundDict (Some ''rfnd_7'')"
              and now = 1700000100 and ?client2.0 = "Some test_client" and later = 1700000200]
      return_request_state_machine [OF request_lookup_examples(2),
            where payment_id = "''pay_test_1234567890''" and amount = 49900
              and client = "Some test_client" and resp = "RefundDict (Some ''rfnd_7'')"
              and now = 1700000100 and ?client2.0 = "Some test_client" and later = 1700000200]
      return_request_state_machine [OF request_lookup_examples(4),
            where payment_id = "''pay_test_1234567890''" and amount = 49900
              and client = "Some test_client" and resp = "RefundDict (Some ''rfnd_7'')"
              and now = 1700000100 and ?client2.0 = "Some test_client" and later = 1700000200]
    by (simp add: f r test_client_refunds)
qed

theorem refund_failure_leaves_request_witness:
  "admin_action (Some pending_db) None 1700000100 approve_body
     = (Some pending_db, Inl (HTTPException 500 ''Refund failed''))
   \<and> admin_action (Some pending_db) (Some failing_client) 1700000100 approve_body
     = (Some pending_db, Inl (HTTPException 500 ''Refund failed''))
   \<and> (\<exists>d'. admin_action (fst (admin_action (Some pending_db) (Some failing_client) 1700000100 approve_body))
              (Some test_client) 1700000200 approve_body
            = (Some d', Inr \<lparr> ar_ok = True, ar_refund = Some (RefundDict (Some ''rfnd_7'')),
                 ar_tasks = [send_refund_email (Some ''customer@example.com'') 49900] \<rparr>))"
proof -
  have f: "aa_action approve_body = ''approve''"
    "rd_status pending_return \<noteq> Some ''refunded''" "rd_status pending_return \<noteq> Some ''approved''"
    "rd_razorpay_payment_id pending_return = Some ''pay_test_1234567890''"
    "''pay_test_1234567890'' \<noteq> []"
    "rd_refund_amount pending_return = Some 49900" "(49900::int) \<noteq> 0"
    by (simp_all add: approve_body_def pending_return_def)
  have n: "(None :: razorpay_client option) = None
            \<or> (\<exists>c exc. (None :: razorpay_client option) = Some c
                  \<and> payment_refund c ''pay_test_1234567890'' 49900 = Inl exc)"
    by simp
  have b: "Some failing_client = None
            \<or> (\<exists>c exc. Some failing_client = Some c
                  \<and> payment_refund c ''pay_test_1234567890'' 49900 = Inl exc)"
    by (simp add: failing_client_def test_client_def)
  have e: "rd_customer_email pending_return = Some ''customer@example.com''"
    by (simp add: pending_return_def)
  show ?thesis
    using refund_failure_leaves_request [OF request_lookup_examples(1) f n,
            where ?client2.0 = "Some test_client" and resp = "RefundDict (Some ''rfnd_7'')"
              and now = 1700000100 and later = 1700000200]
      refund_failure_leaves_request [OF request_lookup_examples(1) f b,
            where ?client2.0 = "Some test_client" and resp = "RefundDict (Some ''rfnd_7'')"
              and now = 1700000100 and later = 1700000200]
    by (auto simp add: test_client_refunds e)
qed

section \<open>Password reset requests\<close>

lemma find_update_one:
  "(\<And>x. p x \<Longrightarrow> p (f x)) \<Longrightarrow> find p (update_one p f xs) = map_option f (find p xs)"
  by (induction xs) auto

text \<open>
  The handler, for a request naming a registered and permitted address at least 60 seconds
  after the last one, in development mode: the dictionary it returns carries the plaintext
  token under \<open>reset_token\<close>, and the user's document stores the token's SHA-256 digest. A
  request that comes sooner gets the generic dictionary and nothing is stored.
\<close>

lemma forgot_password_dev_dictionary:
  assumes "SITE_ADMIN_EMAIL env = [] \<or> strip (lower payload_email) = SITE_ADMIN_EMAIL env"
    and "find (\<lambda>u. a_email u = strip (lower payload_email)) users = Some user"
    and "60 \<le> now - (case a_last_reset_sent_at user of None \<Rightarrow> 0 | Some t \<Rightarrow> t)"
    and "APP_ENV env = None \<or> APP_ENV env = Some ''development''"
  shows "snd (snd (forgot_password env users now utcnow token payload_email))
           = [(''detail'', ''reset created (dev)''), (''reset_token'', token)]
       \<and> find (\<lambda>u. a_email u = strip (lower payload_email))
              (fst (forgot_password env users now utcnow token payload_email))
           = Some (user \<lparr> a_password_reset :=
                            Some \<lparr> pw_token_hash = SHA256 token,
                                   pw_expires_at = utcnow + 60 * RESET_TOKEN_EXPIRE_MINUTES env,
                                   pw_created_at = now \<rparr>,
                          a_last_reset_sent_at := Some now \<rparr>)"
proof -
  have dev: "dev_mode env" using assms(4) by (auto simp: dev_mode_def)
  have upd: "find (\<lambda>u. a_email u = strip (lower payload_email))
               (update_one (\<lambda>u. a_email u = strip (lower payload_email))
                  (\<lambda>u. u \<lparr> a_password_reset :=
                            Some \<lparr> pw_token_hash = hash_token token,
                                   pw_expires_at = utcnow + 60 * RESET_TOKEN_EXPIRE_MINUTES env,
                                   pw_created_at = now \<rparr>,
                          a_last_reset_sent_at := Some now \<rparr>) users)
             = Some (user \<lparr> a_password_reset :=
                            Some \<lparr> pw_token_hash = hash_token token,
                                   pw_expires_at = utcnow + 60 * RESET_TOKEN_EXPIRE_MINUTES env,
                                   pw_created_at = now \<rparr>,
                          a_last_reset_sent_at := Some now \<rparr>)"
    by (subst find_update_one) (simp_all add: assms(2))
  show ?thesis
    using assms(1-3) dev upd
    by (auto simp: forgot_password_def Let_def hash_token_def)
qed

lemma forgot_password_rate_limited:
  assumes "find (\<lambda>u. a_email u = strip (lower payload_email)) users = Some user"
    and "now - (case a_last_reset_sent_at user of None \<Rightarrow> 0 | Some t \<Rightarrow> t) < 60"
  shows "forgot_password env users now utcnow token payload_email = (users, [], generic)"
  using assms by (simp add: forgot_password_def Let_def)

text \<open>
  The body of the response never has a \<open>reset_token\<close>: whatever the handler returns, the
  response model keeps the field \<open>detail\<close> alone.
\<close>

lemma post_forgot_password_body:
  assumes "snd (snd (post_forgot_password env users now utcnow token payload_email)) = Inr body"
  shows "map_of body ''reset_token'' = None \<and> map fst body = [''detail'']"
  using assms
  by (auto simp: post_forgot_password_def MessageOut_def Let_def split: option.splits)

text \<open>
  C10. In development mode (\<open>APP_ENV\<close> unset), a request for the registered address
  \<open>admin@jlrp.local\<close>, 60 seconds after the previous one: the handler returns a dictionary
  with the plaintext token under \<open>reset_token\<close> and stores only the token's digest, but the
  body of the HTTP response, read through the route's response model, is the field
  \<open>detail\<close> alone and contains no \<open>reset_token\<close>.
\<close>

theorem forgot_password_response_without_token:
  "dev_mode default_env
   \<and> snd (snd (forgot_password default_env [admin_account] 1700000060 1700000061
                  ''Zk3vQ'' ''Admin@JLRP.local''))
       = [(''detail'', ''reset created (dev)''), (''reset_token'', ''Zk3vQ'')]
   \<and> post_forgot_password default_env [admin_account] 1700000060 1700000061
        ''Zk3vQ'' ''Admin@JLRP.local''
       = ([admin_account \<lparr> a_password_reset :=
                               Some \<lparr> pw_token_hash = SHA256 ''Zk3vQ'',
                                      pw_expires_at = 1700003661, pw_created_at = 1700000060 \<rparr>,
                             a_last_reset_sent_at := Some 1700000060 \<rparr>],
          [(''admin@jlrp.local'', ''Zk3vQ'')],
          Inr [(''detail'', ''reset created (dev)'')])
   \<and> map_of [(''detail'', ''reset created (dev)'')] ''reset_token'' = None"
  by code_simp

end
